theory Spec2Isabelle
  imports Main
begin

section \<open>JavaScript values used by api/anime.js\<close>

text \<open>
  Strings are sequences of 8-bit characters, read as the UTF-8 bytes of the JavaScript
  string. \<^verbatim>\<open>undefined\<close> is \<open>None\<close>. Every number the file computes is an index plus one or
  a result of \<^verbatim>\<open>parseInt\<close>, so a number is \<^verbatim>\<open>NaN\<close>, an infinity, or a double whose value
  is an integer (\<open>Num\<close>; \<^verbatim>\<open>-0\<close> is \<open>Num 0\<close>, from which nothing here tells it apart).
\<close>

datatype number = NaN | Num int | Infinity | NegInfinity

datatype json =
    JNull
  | JBool bool
  | JNum int
  | JStr string
  | JArr "json list"
  | JObj "(string \<times> json) list"

text \<open>Property access \<^verbatim>\<open>obj.name\<close> on a JSON value; \<open>None\<close> when the property is absent.\<close>

fun field :: "string \<Rightarrow> json \<Rightarrow> json option" where
  "field name (JObj props) = map_of props name"
| "field name _ = None"

text \<open>
  A number inside the object given to \<^verbatim>\<open>res.json\<close>: \<^verbatim>\<open>JSON.stringify\<close> writes \<^verbatim>\<open>null\<close> for
  \<^verbatim>\<open>NaN\<close> and the infinities.
\<close>

definition json_number :: "number \<Rightarrow> json" where
  "json_number x = (case x of Num v \<Rightarrow> JNum v | _ \<Rightarrow> JNull)"

text \<open>An \<^verbatim>\<open>Error\<close> object; the handler reads only its \<^verbatim>\<open>message\<close>.\<close>

datatype js_error = Error (message: string)

subsection \<open>Whitespace and \<^verbatim>\<open>String.prototype.trim\<close>\<close>

text \<open>
  The characters that \<^verbatim>\<open>trim\<close> and \<^verbatim>\<open>parseInt\<close> skip (WhiteSpace and LineTerminator of
  ECMAScript), each as its UTF-8 bytes: U+0009 to U+000D, U+0020, U+00A0, U+1680, U+2000 to
  U+200A, U+2028, U+2029, U+202F, U+205F, U+3000 and U+FEFF.
\<close>

definition white_space :: "string list" where
  "white_space =
     [[CHR 0x09], [CHR 0x0A], [CHR 0x0B], [CHR 0x0C], [CHR 0x0D], [CHR 0x20],
      [CHR 0xC2, CHR 0xA0],
      [CHR 0xE1, CHR 0x9A, CHR 0x80],
      [CHR 0xE2, CHR 0x80, CHR 0x80], [CHR 0xE2, CHR 0x80, CHR 0x81],
      [CHR 0xE2, CHR 0x80, CHR 0x82], [CHR 0xE2, CHR 0x80, CHR 0x83],
      [CHR 0xE2, CHR 0x80, CHR 0x84], [CHR 0xE2, CHR 0x80, CHR 0x85],
      [CHR 0xE2, CHR 0x80, CHR 0x86], [CHR 0xE2, CHR 0x80, CHR 0x87],
      [CHR 0xE2, CHR 0x80, CHR 0x88], [CHR 0xE2, CHR 0x80, CHR 0x89],
      [CHR 0xE2, CHR 0x80, CHR 0x8A],
      [CHR 0xE2, CHR 0x80, CHR 0xA8], [CHR 0xE2, CHR 0x80, CHR 0xA9],
      [CHR 0xE2, CHR 0x80, CHR 0xAF],
      [CHR 0xE2, CHR 0x81, CHR 0x9F],
      [CHR 0xE3, CHR 0x80, CHR 0x80],
      [CHR 0xEF, CHR 0xBB, CHR 0xBF]]"

text \<open>
  Dropping from the front of a string every leading occurrence of one of the byte
  sequences \<open>ws\<close> (none of them empty): \<open>drop (length w - 1) cs\<close> is the string
  \<open>c # cs\<close> without its prefix \<open>w\<close>.
\<close>

fun skip :: "string list \<Rightarrow> string \<Rightarrow> string" where
  "skip ws [] = []"
| "skip ws (c # cs) =
     (case List.find (\<lambda>w. take (length w) (c # cs) = w) ws of
        None \<Rightarrow> c # cs
      | Some w \<Rightarrow> skip ws (drop (length w - 1) cs))"

definition trim_start :: "string \<Rightarrow> string" where
  "trim_start s = skip white_space s"

text \<open>At the end of the string the same sequences are matched backwards.\<close>

definition trim_end :: "string \<Rightarrow> string" where
  "trim_end s = rev (skip (map rev white_space) (rev s))"

definition trim :: "string \<Rightarrow> string" where
  "trim s = trim_end (trim_start s)"

subsection \<open>\<^verbatim>\<open>String.prototype.split\<close> with a one-character separator, and \<^verbatim>\<open>Array.prototype.pop\<close>\<close>

fun split :: "char \<Rightarrow> string \<Rightarrow> string list" where
  "split sep [] = [[]]"
| "split sep (c # cs) =
     (if c = sep then [] # split sep cs
      else (case split sep cs of
              [] \<Rightarrow> [[c]]
            | x # xs \<Rightarrow> (c # x) # xs))"

definition pop :: "'a list \<Rightarrow> 'a option" where
  "pop xs = (case xs of [] \<Rightarrow> None | _ # _ \<Rightarrow> Some (last xs))"

subsection \<open>The operator \<^verbatim>\<open>||\<close> on strings and numbers\<close>

text \<open>\<^verbatim>\<open>v || d\<close> for a string-or-undefined \<open>v\<close>: \<^verbatim>\<open>undefined\<close> and \<^verbatim>\<open>''\<close> are falsy.\<close>

definition or_str :: "string option \<Rightarrow> string \<Rightarrow> string" where
  "or_str v d = (case v of None \<Rightarrow> d | Some s \<Rightarrow> (if s = [] then d else s))"

text \<open>\<^verbatim>\<open>n || d\<close> for a number \<open>n\<close>: \<^verbatim>\<open>NaN\<close>, \<^verbatim>\<open>0\<close> and \<^verbatim>\<open>-0\<close> are falsy.\<close>

definition or_number :: "number \<Rightarrow> number \<Rightarrow> number" where
  "or_number v d = (case v of NaN \<Rightarrow> d | Num n \<Rightarrow> (if n = 0 then d else v) | _ \<Rightarrow> v)"

subsection \<open>The double nearest to an integer\<close>

text \<open>The number of binary digits of a natural number.\<close>

fun bits :: "nat \<Rightarrow> nat" where
  "bits n = (if n = 0 then 0 else Suc (bits (n div 2)))"

text \<open>
  Rounding a natural number to a double, to nearest and ties to even: the 53 leading
  binary digits are kept, the \<open>e\<close> digits \<open>r\<close> below them decide the rounding, and a result
  of 2^1024 or more is no double (\<open>None\<close>).
\<close>

definition to_double :: "nat \<Rightarrow> nat option" where
  "to_double m =
     (let e = (if bits m \<le> 53 then 0 else bits m - 53);
          q = m div 2 ^ e;
          r = m mod 2 ^ e;
          up = (if 2 ^ e < 2 * r then True else (2 * r = 2 ^ e \<and> odd q));
          v = (if up then q + 1 else q) * 2 ^ e
      in if v < 2 ^ 1024 then Some v else None)"

text \<open>The Number value of a mathematical integer.\<close>

definition to_number :: "int \<Rightarrow> number" where
  "to_number i =
     (case to_double (nat \<bar>i\<bar>) of
        None \<Rightarrow> (if i < 0 then NegInfinity else Infinity)
      | Some v \<Rightarrow> Num (if i < 0 then - int v else int v))"

subsection \<open>\<^verbatim>\<open>parseInt\<close> with no radix argument\<close>

text \<open>The value of a character as a digit in radix \<open>R\<close>, if it is one.\<close>

definition digit_val :: "nat \<Rightarrow> char \<Rightarrow> nat option" where
  "digit_val R c =
     (let n = (of_char c :: nat);
          v = (if 48 \<le> n \<and> n \<le> 57 then Some (n - 48)
               else if 97 \<le> n \<and> n \<le> 122 then Some (n - 87)
               else if 65 \<le> n \<and> n \<le> 90 then Some (n - 55)
               else None)
      in case v of None \<Rightarrow> None | Some d \<Rightarrow> (if d < R then Some d else None))"

text \<open>The longest prefix of radix-\<open>R\<close> digits, as digit values.\<close>

fun digits_prefix :: "nat \<Rightarrow> string \<Rightarrow> nat list" where
  "digits_prefix R [] = []"
| "digits_prefix R (c # cs) =
     (case digit_val R c of None \<Rightarrow> [] | Some d \<Rightarrow> d # digits_prefix R cs)"

definition digits_value :: "nat \<Rightarrow> nat list \<Rightarrow> nat" where
  "digits_value R ds = foldl (\<lambda>a d. a * R + d) 0 ds"

text \<open>The string without a leading \<^verbatim>\<open>+\<close> or \<^verbatim>\<open>-\<close>.\<close>

definition strip_sign :: "string \<Rightarrow> string" where
  "strip_sign S =
     (case S of
        [] \<Rightarrow> S
      | c # cs \<Rightarrow> (if c = CHR ''+'' then cs else if c = CHR ''-'' then cs else S))"

text \<open>
  ECMAScript \<^verbatim>\<open>parseInt(string)\<close>: skip leading whitespace, read a sign, strip a
  \<^verbatim>\<open>0x\<close>/\<^verbatim>\<open>0X\<close> prefix (radix 16, else 10), read the longest run of digits; no digit is
  \<^verbatim>\<open>NaN\<close>, and the integer read, with its sign, is rounded to a double. (Beyond 20
  significant decimal digits ECMAScript lets an implementation approximate; V8 rounds the
  exact integer, as here.)
\<close>

definition parseInt :: "string \<Rightarrow> number" where
  "parseInt inputString =
     (let S = trim_start inputString;
          sign = (case S of c # _ \<Rightarrow> (if c = CHR ''-'' then - 1 else 1) | [] \<Rightarrow> (1::int));
          S1 = strip_sign S;
          hex = (if take 2 S1 = ''0x'' then True else take 2 S1 = ''0X'');
          R = (if hex then 16 else 10);
          Z = digits_prefix R (if hex then drop 2 S1 else S1)
      in if Z = [] then NaN else to_number (sign * int (digits_value R Z)))"

text \<open>\<^verbatim>\<open>String(v)\<close> for a query parameter: an absent one is the text \<^verbatim>\<open>undefined\<close>.\<close>

definition to_string :: "string option \<Rightarrow> string" where
  "to_string v = (case v of None \<Rightarrow> ''undefined'' | Some s \<Rightarrow> s)"

subsection \<open>Numbers in template strings\<close>

text \<open>
  \<open>show_nat\<close> and \<open>show_int\<close> write all decimal digits of an integer: this is what a
  template string writes for a number of magnitude below 2^53.
\<close>

definition digit_char :: "nat \<Rightarrow> char" where
  "digit_char d = ''0123456789'' ! d"

fun show_nat :: "nat \<Rightarrow> string" where
  "show_nat n = (if n < 10 then [digit_char n] else show_nat (n div 10) @ [digit_char (n mod 10)])"

definition show_int :: "int \<Rightarrow> string" where
  "show_int i = (if i < 0 then CHR ''-'' # show_nat (nat (- i)) else show_nat (nat i))"

subsection \<open>\<^verbatim>\<open>encodeURIComponent\<close>\<close>

definition unreserved :: "char \<Rightarrow> bool" where
  "unreserved c =
     (let n = (of_char c :: nat)
      in (48 \<le> n \<and> n \<le> 57) \<or> (65 \<le> n \<and> n \<le> 90) \<or> (97 \<le> n \<and> n \<le> 122)
         \<or> c \<in> set ''-_.!~*'()'')"

definition hex_char :: "nat \<Rightarrow> char" where
  "hex_char d = ''0123456789ABCDEF'' ! d"

text \<open>
  Every byte that is not unreserved is written \<^verbatim>\<open>%XX\<close>. (JavaScript raises
  \<^verbatim>\<open>URIError\<close> on a lone surrogate; a UTF-8 byte string has none.)
\<close>

definition encodeURIComponent :: "string \<Rightarrow> string" where
  "encodeURIComponent s =
     concat (map (\<lambda>c. if unreserved c then [c]
                       else [CHR ''%'', hex_char (of_char c div 16), hex_char (of_char c mod 16)]) s)"

section \<open>The collaborators: upstream site, HTML parser, clock\<close>

text \<open>
  What \<^verbatim>\<open>cheerio.load(html)\<close> gives, for a node type \<open>'n\<close>: \<open>select\<close> is \<^verbatim>\<open>$(selector)\<close>,
  the matched nodes in document order; \<open>find_in\<close> is \<^verbatim>\<open>$(el).find(selector)\<close>; the other three
  read one node. The parser is a library outside the repository, so the document is a
  parameter of the model.
\<close>

record 'n document =
  select :: "string \<Rightarrow> 'n list"
  find_in :: "'n \<Rightarrow> string \<Rightarrow> 'n list"
  node_text :: "'n \<Rightarrow> string"
  node_attr :: "'n \<Rightarrow> string \<Rightarrow> string option"
  next_sibling :: "'n \<Rightarrow> 'n option"

text \<open>\<^verbatim>\<open>.text()\<close> of a selection: the texts of all its nodes, concatenated.\<close>

definition text_of :: "'n document \<Rightarrow> 'n list \<Rightarrow> string" where
  "text_of doc sel = concat (map (node_text doc) sel)"

text \<open>\<^verbatim>\<open>.attr(name)\<close> of a selection: the attribute of its first node, \<^verbatim>\<open>undefined\<close> if there is none.\<close>

definition attr :: "'n document \<Rightarrow> 'n list \<Rightarrow> string \<Rightarrow> string option" where
  "attr doc sel name = (case sel of [] \<Rightarrow> None | el # _ \<Rightarrow> node_attr doc el name)"

text \<open>\<^verbatim>\<open>.next()\<close> of a selection: the following sibling of each node that has one.\<close>

definition next_of :: "'n document \<Rightarrow> 'n list \<Rightarrow> 'n list" where
  "next_of doc sel = List.map_filter (next_sibling doc) sel"

text \<open>A response of \<^verbatim>\<open>fetch\<close>; reading its body with \<^verbatim>\<open>response.text()\<close> can itself fail.\<close>

datatype http_response =
  Response (status: nat) (statusText: string) (response_text: "js_error + string")

definition ok :: "http_response \<Rightarrow> bool" where
  "ok response = (200 \<le> status response \<and> status response \<le> 299)"

text \<open>
  The environment of one invocation: \<open>fetch url headers\<close> either rejects with an error or
  resolves with a response; \<open>load\<close> is \<^verbatim>\<open>cheerio.load\<close>; \<open>now\<close> is
  \<^verbatim>\<open>new Date().toISOString()\<close>; \<open>number_text\<close> is what the engine writes in a template
  string for a finite number of magnitude 2^53 or more (its shortest digits that read back
  as the same double, in exponent form from 10^21 on; ECMAScript leaves the last digit to
  the implementation).
\<close>

record 'n env =
  fetch :: "string \<Rightarrow> (string \<times> string) list \<Rightarrow> js_error + http_response"
  load :: "string \<Rightarrow> 'n document"
  now :: string
  number_text :: "int \<Rightarrow> string"

text \<open>A number in a template string.\<close>

definition show_number :: "'n env \<Rightarrow> number \<Rightarrow> string" where
  "show_number env x =
     (case x of
        NaN \<Rightarrow> ''NaN''
      | Infinity \<Rightarrow> ''Infinity''
      | NegInfinity \<Rightarrow> ''-Infinity''
      | Num v \<Rightarrow> (if \<bar>v\<bar> < 2 ^ 53 then show_int v else number_text env v))"

text \<open>The effects of one invocation: the URLs requested, and the lines of \<^verbatim>\<open>console.error\<close>.\<close>

record world =
  fetched :: "string list"
  console :: "(string \<times> js_error) list"

definition new_world :: world where
  "new_world = \<lparr>fetched = [], console = []\<rparr>"

section \<open>fetchFromHiAnime\<close>

definition BASE_URL :: string where
  "BASE_URL = ''https://hianime.to''"

definition request_headers :: "(string \<times> string) list" where
  "request_headers =
     [(''User-Agent'', ''Mozilla/5.0 (Windows NT 10.0; Win64; x64) AppleWebKit/537.36''),
      (''Accept'', ''text/html,application/xhtml+xml,application/xml;q=0.9,*/*;q=0.8''),
      (''Accept-Language'', ''en-US,en;q=0.5''),
      (''Referer'', BASE_URL)]"

text \<open>
  The body of the \<^verbatim>\<open>try\<close> block: the call of \<^verbatim>\<open>fetch\<close>, the test of \<^verbatim>\<open>response.ok\<close>
  and the reading of the body. \<open>Inl\<close> is the error thrown.
\<close>

definition fetch_try :: "'n env \<Rightarrow> string \<Rightarrow> js_error + string" where
  "fetch_try env url =
     (case fetch env url request_headers of
        Inl error \<Rightarrow> Inl error
      | Inr response \<Rightarrow>
          (if ok response then response_text response
           else Inl (Error (''HTTP '' @ show_nat (status response) @ '': ''
                            @ statusText response))))"

text \<open>The \<^verbatim>\<open>catch\<close> block logs the error and throws it again.\<close>

definition fetchFromHiAnime :: "'n env \<Rightarrow> string \<Rightarrow> world \<Rightarrow> (js_error + string) \<times> world" where
  "fetchFromHiAnime env path w =
     (let url = BASE_URL @ path;
          w1 = w\<lparr>fetched := fetched w @ [url]\<rparr>
      in case fetch_try env url of
           Inl error \<Rightarrow> (Inl error, w1\<lparr>console := console w1 @ [(''Fetch error:'', error)]\<rparr>)
         | Inr html \<Rightarrow> (Inr html, w1))"

section \<open>The extractors\<close>

text \<open>\<^verbatim>\<open>href?.split('/').pop() || ''\<close>\<close>

definition link_id :: "string option \<Rightarrow> string" where
  "link_id href =
     or_str (case href of None \<Rightarrow> None | Some h \<Rightarrow> pop (split CHR ''/'' h)) []"

text \<open>
  \<^verbatim>\<open>$(selector).each((i, el) => { arr.push(f(i, el)) })\<close>: the loop over the matched nodes,
  with the index it hands to the callback and the array it appends to.
\<close>

fun each_push :: "(nat \<Rightarrow> 'n \<Rightarrow> 'a) \<Rightarrow> nat \<Rightarrow> 'n list \<Rightarrow> 'a list \<Rightarrow> 'a list" where
  "each_push f i [] arr = arr"
| "each_push f i (el # els) arr = each_push f (Suc i) els (arr @ [f i el])"

subsection \<open>getHomePage\<close>

definition spotlight_entry :: "'n document \<Rightarrow> nat \<Rightarrow> 'n \<Rightarrow> json" where
  "spotlight_entry doc i el = JObj
     [(''id'', JStr (link_id (attr doc (find_in doc el ''a'') ''href''))),
      (''title'', JStr (trim (text_of doc (find_in doc el ''.deslide-item-content h2'')))),
      (''description'', JStr (trim (text_of doc (find_in doc el ''.deslide-item-content .sc-desc'')))),
      (''poster'', JStr (or_str (attr doc (find_in doc el ''.deslide-cover img'') ''src'') [])),
      (''rank'', JNum (int i + 1))]"

definition trending_entry :: "'n document \<Rightarrow> nat \<Rightarrow> 'n \<Rightarrow> json" where
  "trending_entry doc i el = JObj
     [(''id'', JStr (link_id (attr doc (find_in doc el ''a.film-poster'') ''href''))),
      (''title'', JStr (trim (text_of doc (find_in doc el ''.film-name'')))),
      (''poster'', JStr (or_str (attr doc (find_in doc el ''.film-poster-img'') ''data-src'') [])),
      (''type'', JStr (trim (text_of doc (find_in doc el ''.fdi-item:first'')))),
      (''duration'', JStr (trim (text_of doc (find_in doc el ''.fdi-duration''))))]"

text \<open>The part of \<^verbatim>\<open>getHomePage\<close> after the page is loaded: the two loops and the object returned.\<close>

definition home_page :: "'n document \<Rightarrow> string \<Rightarrow> json" where
  "home_page doc timestamp =
     (let spotlight = each_push (spotlight_entry doc) 0 (select doc ''.deslide-item'') [];
          trending = each_push (trending_entry doc) 0
                       (select doc ''#trending-home .film_list-wrap .flw-item'') []
      in JObj
           [(''success'', JBool True),
            (''data'', JObj
               [(''spotlight'', JArr spotlight),
                (''trending'', JArr trending),
                (''timestamp'', JStr timestamp)])])"

definition getHomePage :: "'n env \<Rightarrow> world \<Rightarrow> (js_error + json) \<times> world" where
  "getHomePage env w =
     (case fetchFromHiAnime env ''/home'' w of
        (Inl error, w') \<Rightarrow> (Inl error, w')
      | (Inr html, w') \<Rightarrow> (Inr (home_page (load env html) (now env)), w'))"

subsection \<open>searchAnime\<close>

definition result_entry :: "'n document \<Rightarrow> nat \<Rightarrow> 'n \<Rightarrow> json" where
  "result_entry doc i el = JObj
     [(''id'', JStr (link_id (attr doc (find_in doc el ''a.film-poster'') ''href''))),
      (''title'', JStr (trim (text_of doc (find_in doc el ''.film-name'')))),
      (''poster'', JStr (or_str (attr doc (find_in doc el ''.film-poster-img'') ''data-src'') [])),
      (''type'', JStr (trim (text_of doc (find_in doc el ''.fdi-item:first'')))),
      (''duration'', JStr (trim (text_of doc (find_in doc el ''.fdi-duration'')))),
      (''episodes'', JObj
         [(''sub'', json_number (or_number (parseInt (text_of doc (find_in doc el ''.tick-sub''))) (Num 0))),
          (''dub'', json_number (or_number (parseInt (text_of doc (find_in doc el ''.tick-dub''))) (Num 0)))])]"

text \<open>The part of \<^verbatim>\<open>searchAnime\<close> after the page is loaded.\<close>

definition search_page :: "'n document \<Rightarrow> string \<Rightarrow> number \<Rightarrow> json" where
  "search_page doc query page =
     (let results = each_push (result_entry doc) 0 (select doc ''.flw-item'') []
      in JObj
           [(''success'', JBool True),
            (''data'', JObj
               [(''results'', JArr results),
                (''currentPage'', json_number page),
                (''query'', JStr query)])])"

definition searchAnime :: "'n env \<Rightarrow> string \<Rightarrow> number \<Rightarrow> world \<Rightarrow> (js_error + json) \<times> world" where
  "searchAnime env query page w =
     (case fetchFromHiAnime env
             (''/search?keyword='' @ encodeURIComponent query @ ''&page='' @ show_number env page) w of
        (Inl error, w') \<Rightarrow> (Inl error, w')
      | (Inr html, w') \<Rightarrow> (Inr (search_page (load env html) query page), w'))"

subsection \<open>getAnimeDetails\<close>

text \<open>The part of \<^verbatim>\<open>getAnimeDetails\<close> after the page is loaded.\<close>

definition details_page :: "'n document \<Rightarrow> string \<Rightarrow> json" where
  \<open>details_page doc animeId = JObj
     [(''success'', JBool True),
      (''data'', JObj
         [(''id'', JStr animeId),
          (''title'', JStr (trim (text_of doc (select doc ''.film-name'')))),
          (''poster'', JStr (or_str (attr doc (select doc ''.film-poster-img'') ''src'') [])),
          (''description'', JStr (trim (text_of doc (select doc ''.film-description'')))),
          (''type'', JStr (trim (text_of doc
              (next_of doc (select doc ''.item-title:contains("Type:")''))))),
          (''status'', JStr (trim (text_of doc
              (next_of doc (select doc ''.item-title:contains("Status:")''))))),
          (''genres'', JArr (map (\<lambda>el. JStr (trim (text_of doc [el])))
                              (select doc ''.item-list a''))),
          (''episodes'', JObj
             [(''sub'', json_number (or_number (parseInt (text_of doc (select doc ''.tick-sub''))) (Num 0))),
              (''dub'', json_number (or_number (parseInt (text_of doc (select doc ''.tick-dub''))) (Num 0)))])])]\<close>

definition getAnimeDetails :: "'n env \<Rightarrow> string \<Rightarrow> world \<Rightarrow> (js_error + json) \<times> world" where
  "getAnimeDetails env animeId w =
     (case fetchFromHiAnime env (''/'' @ animeId) w of
        (Inl error, w') \<Rightarrow> (Inl error, w')
      | (Inr html, w') \<Rightarrow> (Inr (details_page (load env html) animeId), w'))"

section \<open>The handler\<close>

text \<open>
  The request: its method and \<^verbatim>\<open>req.query\<close>, the dictionary of the URL's query
  parameters (each a string, as the specification types them).
\<close>

record request =
  "method" :: string
  query :: "string \<rightharpoonup> string"

text \<open>The response object \<^verbatim>\<open>res\<close>: \<open>body = None\<close> is the empty body of \<^verbatim>\<open>.end()\<close>.\<close>

record res =
  headers :: "string \<rightharpoonup> string"
  statusCode :: nat
  body :: "json option"
  finished :: bool

definition new_res :: res where
  "new_res = \<lparr>headers = Map.empty, statusCode = 200, body = None, finished = False\<rparr>"

definition setHeader :: "string \<Rightarrow> string \<Rightarrow> res \<Rightarrow> res" where
  "setHeader name v r = r\<lparr>headers := (headers r)(name \<mapsto> v)\<rparr>"

definition status_res :: "nat \<Rightarrow> res \<Rightarrow> res" where
  "status_res code r = r\<lparr>statusCode := code\<rparr>"

definition json_res :: "json \<Rightarrow> res \<Rightarrow> res" where
  "json_res v r = r\<lparr>body := Some v, finished := True\<rparr>"

definition end_res :: "res \<Rightarrow> res" where
  "end_res r = r\<lparr>finished := True\<rparr>"

definition endpoints :: json where
  "endpoints = JObj
     [(''success'', JBool True),
      (''message'', JStr ''HiAnime API - Available endpoints''),
      (''endpoints'', JArr
         [JObj [(''path'', JStr ''/api/hianime?action=home''),
                (''description'', JStr ''Get homepage content'')],
          JObj [(''path'', JStr ''/api/hianime?action=search&query=naruto&page=1''),
                (''description'', JStr ''Search anime'')],
          JObj [(''path'', JStr ''/api/hianime?action=details&id=naruto-20''),
                (''description'', JStr ''Get anime details'')]])]"

definition failure :: "string \<Rightarrow> json" where
  "failure msg = JObj [(''success'', JBool False), (''error'', JStr msg)]"

text \<open>
  The body of the \<^verbatim>\<open>try\<close> block: the \<^verbatim>\<open>switch\<close> on \<^verbatim>\<open>action\<close>. \<open>Inl\<close> is an error thrown
  out of it; \<open>Inr\<close> is the response it returned. \<^verbatim>\<open>!query\<close> holds of an absent and of an
  empty parameter.
\<close>

definition dispatch :: "'n env \<Rightarrow> request \<Rightarrow> res \<Rightarrow> world \<Rightarrow> (js_error + res) \<times> world" where
  "dispatch env req r w =
     (if query req ''action'' = Some ''home'' then
        (case getHomePage env w of
           (Inl error, w') \<Rightarrow> (Inl error, w')
         | (Inr homeData, w') \<Rightarrow> (Inr (json_res homeData (status_res 200 r)), w'))
      else if query req ''action'' = Some ''search'' then
        (if or_str (query req ''query'') [] = [] then
           (Inr (json_res (failure ''Query parameter required'') (status_res 400 r)), w)
         else
           (case searchAnime env (or_str (query req ''query'') [])
                   (or_number (parseInt (to_string (query req ''page''))) (Num 1)) w of
              (Inl error, w') \<Rightarrow> (Inl error, w')
            | (Inr searchData, w') \<Rightarrow> (Inr (json_res searchData (status_res 200 r)), w')))
      else if query req ''action'' = Some ''details'' then
        (if or_str (query req ''id'') [] = [] then
           (Inr (json_res (failure ''ID parameter required'') (status_res 400 r)), w)
         else
           (case getAnimeDetails env (or_str (query req ''id'') []) w of
              (Inl error, w') \<Rightarrow> (Inl error, w')
            | (Inr detailsData, w') \<Rightarrow> (Inr (json_res detailsData (status_res 200 r)), w')))
      else (Inr (json_res endpoints (status_res 200 r)), w))"

definition cors :: "res \<Rightarrow> res" where
  "cors r =
     setHeader ''Access-Control-Allow-Headers'' ''Content-Type''
       (setHeader ''Access-Control-Allow-Methods'' ''GET, OPTIONS''
          (setHeader ''Access-Control-Allow-Origin'' ''*'' r))"

definition handler :: "'n env \<Rightarrow> request \<Rightarrow> res \<times> world" where
  "handler env req =
     (let r = cors new_res
      in if method req = ''OPTIONS'' then (end_res (status_res 200 r), new_world)
         else
           (case dispatch env req r new_world of
              (Inr r', w) \<Rightarrow> (r', w)
            | (Inl error, w) \<Rightarrow>
                (json_res (failure (or_str (Some (message error)) ''Internal server error''))
                   (status_res 500 r),
                 w\<lparr>console := console w @ [(''API Error:'', error)]\<rparr>)))"

section \<open>Vocabulary of the properties\<close>

text \<open>\<^verbatim>\<open>body.data.<name>\<close> of a response.\<close>

definition data_field :: "string \<Rightarrow> res \<Rightarrow> json option" where
  "data_field name r = Option.bind (Option.bind (body r) (field ''data'')) (field name)"

text \<open>
  A request that reaches an extractor: it is no pre-flight, its action is one of the
  three, and the parameter the action requires is there.
\<close>

definition dispatched :: "request \<Rightarrow> bool" where
  "dispatched req =
     (method req \<noteq> ''OPTIONS'' \<and>
      (query req ''action'' = Some ''home''
       \<or> (query req ''action'' = Some ''search'' \<and> or_str (query req ''query'') [] \<noteq> [])
       \<or> (query req ''action'' = Some ''details'' \<and> or_str (query req ''id'') [] \<noteq> [])))"

text \<open>
  An upstream call that fails: \<^verbatim>\<open>fetch\<close> rejects, the status is outside 200..299, or the
  body cannot be read.
\<close>

definition upstream_fails :: "js_error + http_response \<Rightarrow> bool" where
  "upstream_fails outcome =
     (case outcome of
        Inl e \<Rightarrow> True
      | Inr response \<Rightarrow> (if ok response then isl (response_text response) else True))"

text \<open>
  What a failed upstream call has to say: the status line of a non-2xx response, else the
  message of the network error.
\<close>

definition failure_text :: "js_error + http_response \<Rightarrow> string" where
  "failure_text outcome =
     (case outcome of
        Inl e \<Rightarrow> message e
      | Inr response \<Rightarrow>
          (if ok response then (case response_text response of Inl e \<Rightarrow> message e | Inr _ \<Rightarrow> [])
           else ''HTTP '' @ show_nat (status response) @ '': '' @ statusText response))"

definition is_digit :: "char \<Rightarrow> bool" where
  "is_digit c = (48 \<le> (of_char c :: nat) \<and> (of_char c :: nat) \<le> 57)"

text \<open>
  A text that begins with a number: after its leading whitespace and an optional sign
  comes a decimal digit.
\<close>

definition digit_led :: "string \<Rightarrow> bool" where
  "digit_led t = (case strip_sign (trim_start t) of [] \<Rightarrow> False | c # _ \<Rightarrow> is_digit c)"

text \<open>A text whose first character after the leading whitespace is a minus sign.\<close>

definition minus_led :: "string \<Rightarrow> bool" where
  "minus_led t = (case trim_start t of [] \<Rightarrow> False | c # _ \<Rightarrow> c = CHR ''-'')"

section \<open>Fixtures\<close>

text \<open>
  A small page, over nodes numbered by hand: two spotlight slides (1, 2), one trending
  card (3), three search cards (3, 4, 5); the second slide and the second card have no
  children at all, and the badges of the third card read 310 nines and "EP 12".
\<close>

definition sample_doc :: "nat document" where
  "sample_doc =
     \<lparr>select = (\<lambda>s. if s = ''.deslide-item'' then [1, 2]
                    else if s = ''#trending-home .film_list-wrap .flw-item'' then [3]
                    else if s = ''.flw-item'' then [3, 4, 5]
                    else if s = ''.film-name'' then [31]
                    else if s = ''.tick-sub'' then [32]
                    else if s = ''.tick-dub'' then [33]
                    else []),
      find_in = (\<lambda>el s. if el = 1 \<and> s = ''a'' then [10]
                     else if el = 1 \<and> s = ''.deslide-item-content h2'' then [11]
                     else if el = 3 \<and> s = ''a.film-poster'' then [30]
                     else if el = 3 \<and> s = ''.film-name'' then [31]
                     else if el = 3 \<and> s = ''.tick-sub'' then [32]
                     else if el = 3 \<and> s = ''.tick-dub'' then [33]
                     else if el = 5 \<and> s = ''.tick-sub'' then [52]
                     else if el = 5 \<and> s = ''.tick-dub'' then [53]
                     else []),
      node_text = (\<lambda>n. if n = 11 then '' One Piece ''
                       else if n = 31 then ''Naruto''
                       else if n = 32 then ''12 eps''
                       else if n = 33 then ''-5''
                       else if n = 52 then replicate 310 CHR ''9''
                       else if n = 53 then ''EP 12''
                       else []),
      node_attr = (\<lambda>n a. if n = 10 \<and> a = ''href'' then Some ''/watch/one-piece-100''
                         else if n = 30 \<and> a = ''href'' then Some ''/naruto-20''
                         else None),
      next_sibling = (\<lambda>n. None)\<rparr>"

text \<open>A page on which no selector matches.\<close>

definition empty_doc :: "nat document" where
  "empty_doc =
     \<lparr>select = (\<lambda>s. []), find_in = (\<lambda>el s. []), node_text = (\<lambda>n. []),
      node_attr = (\<lambda>n a. None), next_sibling = (\<lambda>n. None)\<rparr>"

text \<open>
  The upstream site answering, answering 404, and unreachable. (No request below has a
  number of magnitude 2^53, so \<open>number_text\<close> is never consulted.)
\<close>

definition site_up :: "nat env" where
  "site_up =
     \<lparr>fetch = (\<lambda>url hs. Inr (Response 200 ''OK'' (Inr ''<html></html>''))),
      load = (\<lambda>html. sample_doc),
      now = ''2024-01-01T00:00:00.000Z'',
      number_text = (\<lambda>v. ''1e+21'')\<rparr>"

definition site_blank :: "nat env" where
  "site_blank = site_up\<lparr>load := (\<lambda>html. empty_doc)\<rparr>"

definition site_404 :: "nat env" where
  "site_404 = site_up\<lparr>fetch := (\<lambda>url hs. Inr (Response 404 ''Not Found'' (Inr [])))\<rparr>"

definition site_down :: "nat env" where
  "site_down = site_up\<lparr>fetch := (\<lambda>url hs. Inl (Error ''fetch failed''))\<rparr>"

definition get_request :: "(string \<times> string) list \<Rightarrow> request" where
  "get_request params = \<lparr>method = ''GET'', query = map_of params\<rparr>"

definition options_request :: "(string \<times> string) list \<Rightarrow> request" where
  "options_request params = \<lparr>method = ''OPTIONS'', query = map_of params\<rparr>"

section \<open>Facts about the handler's control flow\<close>

lemma handler_options:
  "method req = ''OPTIONS'' \<Longrightarrow>
     handler env req = (end_res (status_res 200 (cors new_res)), new_world)"
  by (simp add: handler_def)

lemma handler_catch:
  "method req \<noteq> ''OPTIONS'' \<Longrightarrow>
     handler env req =
       (case dispatch env req (cors new_res) new_world of
          (Inr r', w) \<Rightarrow> (r', w)
        | (Inl error, w) \<Rightarrow>
            (json_res (failure (or_str (Some (message error)) ''Internal server error''))
               (status_res 500 (cors new_res)),
             w\<lparr>console := console w @ [(''API Error:'', error)]\<rparr>))"
  by (simp add: handler_def Let_def)

lemma headers_status_res [simp]: "headers (status_res code r) = headers r"
  by (simp add: status_res_def)

lemma headers_json_res [simp]: "headers (json_res v r) = headers r"
  by (simp add: json_res_def)

lemma headers_end_res [simp]: "headers (end_res r) = headers r"
  by (simp add: end_res_def)

lemma statusCode_json_res [simp]: "statusCode (json_res v (status_res code r)) = code"
  by (simp add: json_res_def status_res_def)

lemma body_json_res [simp]: "body (json_res v r) = Some v"
  by (simp add: json_res_def)

lemma headers_cors:
  "headers (cors r) ''Access-Control-Allow-Origin'' = Some ''*''"
  "headers (cors r) ''Access-Control-Allow-Methods'' = Some ''GET, OPTIONS''"
  "headers (cors r) ''Access-Control-Allow-Headers'' = Some ''Content-Type''"
  by (simp_all add: cors_def setHeader_def)

lemma dispatch_headers:
  "dispatch env req r w = (Inr r', w') \<Longrightarrow> headers r' = headers r"
  by (auto simp: dispatch_def split: if_splits prod.splits sum.splits)

lemma dispatch_default:
  assumes "query req ''action'' \<noteq> Some ''home''"
    and "query req ''action'' \<noteq> Some ''search''"
    and "query req ''action'' \<noteq> Some ''details''"
  shows "dispatch env req r w = (Inr (json_res endpoints (status_res 200 r)), w)"
  using assms by (simp add: dispatch_def)

lemma fetchFromHiAnime_eq:
  "fetchFromHiAnime env path w =
     (case fetch_try env (BASE_URL @ path) of
        Inl error \<Rightarrow> (Inl error, \<lparr>fetched = fetched w @ [BASE_URL @ path],
                                  console = console w @ [(''Fetch error:'', error)]\<rparr>)
      | Inr html \<Rightarrow> (Inr html, \<lparr>fetched = fetched w @ [BASE_URL @ path], console = console w\<rparr>))"
  by (simp add: fetchFromHiAnime_def Let_def split: sum.splits)

lemma dispatch_search_falsy:
  "query req ''action'' = Some ''search'' \<Longrightarrow> or_str (query req ''query'') [] = [] \<Longrightarrow>
     dispatch env req r w = (Inr (json_res (failure ''Query parameter required'') (status_res 400 r)), w)"
  by (simp add: dispatch_def)

lemma dispatch_details_falsy:
  "query req ''action'' = Some ''details'' \<Longrightarrow> or_str (query req ''id'') [] = [] \<Longrightarrow>
     dispatch env req r w = (Inr (json_res (failure ''ID parameter required'') (status_res 400 r)), w)"
  by (simp add: dispatch_def)

lemma handler_fetch:
  assumes "method req \<noteq> ''OPTIONS''"
    and "dispatch env req (cors new_res) new_world =
           (case fetchFromHiAnime env path new_world of
              (Inl error, w') \<Rightarrow> (Inl error, w')
            | (Inr html, w') \<Rightarrow> (Inr (json_res (page html) (status_res 200 (cors new_res))), w'))"
  shows "handler env req =
           (case fetch_try env (BASE_URL @ path) of
              Inl error \<Rightarrow>
                (json_res (failure (or_str (Some (message error)) ''Internal server error''))
                   (status_res 500 (cors new_res)),
                 \<lparr>fetched = [BASE_URL @ path],
                  console = [(''Fetch error:'', error), (''API Error:'', error)]\<rparr>)
            | Inr html \<Rightarrow>
                (json_res (page html) (status_res 200 (cors new_res)),
                 \<lparr>fetched = [BASE_URL @ path], console = []\<rparr>))"
proof -
  have "handler env req =
          (case (case fetchFromHiAnime env path new_world of
                   (Inl error, w') \<Rightarrow> (Inl error, w')
                 | (Inr html, w') \<Rightarrow>
                     (Inr (json_res (page html) (status_res 200 (cors new_res))), w')) of
             (Inr r', w) \<Rightarrow> (r', w)
           | (Inl error, w) \<Rightarrow>
               (json_res (failure (or_str (Some (message error)) ''Internal server error''))
                  (status_res 500 (cors new_res)),
                w\<lparr>console := console w @ [(''API Error:'', error)]\<rparr>))"
    by (simp add: handler_catch [OF assms(1)] assms(2))
  then show ?thesis
    by (simp add: fetchFromHiAnime_eq new_world_def split: sum.splits)
qed

lemma dispatch_home:
  "query req ''action'' = Some ''home'' \<Longrightarrow>
     dispatch env req r w =
       (case fetchFromHiAnime env ''/home'' w of
          (Inl error, w') \<Rightarrow> (Inl error, w')
        | (Inr html, w') \<Rightarrow>
            (Inr (json_res (home_page (load env html) (now env)) (status_res 200 r)), w'))"
  by (simp add: dispatch_def getHomePage_def split: prod.splits sum.splits)

lemma dispatch_search:
  "query req ''action'' = Some ''search'' \<Longrightarrow> query req ''query'' = Some q \<Longrightarrow> q \<noteq> [] \<Longrightarrow>
     dispatch env req r w =
       (case fetchFromHiAnime env
               (''/search?keyword='' @ encodeURIComponent q @ ''&page=''
                @ show_number env (or_number (parseInt (to_string (query req ''page''))) (Num 1))) w of
          (Inl error, w') \<Rightarrow> (Inl error, w')
        | (Inr html, w') \<Rightarrow>
            (Inr (json_res (search_page (load env html) q
                              (or_number (parseInt (to_string (query req ''page''))) (Num 1)))
                    (status_res 200 r)), w'))"
  by (simp add: dispatch_def searchAnime_def or_str_def split: prod.splits sum.splits)

lemma dispatch_details:
  "query req ''action'' = Some ''details'' \<Longrightarrow> query req ''id'' = Some i \<Longrightarrow> i \<noteq> [] \<Longrightarrow>
     dispatch env req r w =
       (case fetchFromHiAnime env (''/'' @ i) w of
          (Inl error, w') \<Rightarrow> (Inl error, w')
        | (Inr html, w') \<Rightarrow>
            (Inr (json_res (details_page (load env html) i) (status_res 200 r)), w'))"
  by (simp add: dispatch_def getAnimeDetails_def or_str_def split: prod.splits sum.splits)

lemma handler_search_falsy:
  assumes "method req \<noteq> ''OPTIONS''" and "query req ''action'' = Some ''search''"
    and "or_str (query req ''query'') [] = []"
  shows "handler env req =
           (json_res (failure ''Query parameter required'') (status_res 400 (cors new_res)), new_world)"
  by (simp add: handler_catch [OF assms(1)] dispatch_search_falsy [OF assms(2,3)])

lemma handler_details_falsy:
  assumes "method req \<noteq> ''OPTIONS''" and "query req ''action'' = Some ''details''"
    and "or_str (query req ''id'') [] = []"
  shows "handler env req =
           (json_res (failure ''ID parameter required'') (status_res 400 (cors new_res)), new_world)"
  by (simp add: handler_catch [OF assms(1)] dispatch_details_falsy [OF assms(2,3)])

lemma fetch_try_fails:
  "upstream_fails (fetch env url request_headers) \<Longrightarrow>
     fetch_try env url = Inl (Error (failure_text (fetch env url request_headers)))"
  by (auto simp: upstream_fails_def fetch_try_def failure_text_def isl_def
           split: sum.splits if_splits)

lemma or_str_nonempty: "d \<noteq> [] \<Longrightarrow> or_str v d \<noteq> []"
  by (simp add: or_str_def split: option.splits)

lemma dispatched_cases:
  assumes "dispatched req"
  obtains (home) "query req ''action'' = Some ''home''"
  | (search) q where "query req ''action'' = Some ''search''" "query req ''query'' = Some q" "q \<noteq> []"
  | (details) i where "query req ''action'' = Some ''details''" "query req ''id'' = Some i" "i \<noteq> []"
  using assms by (auto simp: dispatched_def or_str_def split: option.splits if_splits)

lemma handler_dispatched:
  assumes "dispatched req"
  obtains path page where
    "handler env req =
       (case fetch_try env (BASE_URL @ path) of
          Inl error \<Rightarrow>
            (json_res (failure (or_str (Some (message error)) ''Internal server error''))
               (status_res 500 (cors new_res)),
             \<lparr>fetched = [BASE_URL @ path],
              console = [(''Fetch error:'', error), (''API Error:'', error)]\<rparr>)
        | Inr html \<Rightarrow>
            (json_res (page html) (status_res 200 (cors new_res)),
             \<lparr>fetched = [BASE_URL @ path], console = []\<rparr>))"
proof -
  from assms have m: "method req \<noteq> ''OPTIONS''" by (simp add: dispatched_def)
  from assms show thesis
  proof (cases rule: dispatched_cases)
    case home
    show thesis by (rule that, rule handler_fetch [OF m], rule dispatch_home [OF home])
  next
    case (search q)
    show thesis by (rule that, rule handler_fetch [OF m], rule dispatch_search [OF search])
  next
    case (details i)
    show thesis by (rule that, rule handler_fetch [OF m], rule dispatch_details [OF details])
  qed
qed

lemma handler_search_eq:
  assumes "method req \<noteq> ''OPTIONS''" and "query req ''action'' = Some ''search''"
    and "query req ''query'' = Some q" and "q \<noteq> []"
  shows "handler env req =
           (case fetch_try env (BASE_URL @ ''/search?keyword='' @ encodeURIComponent q @ ''&page=''
                   @ show_number env (or_number (parseInt (to_string (query req ''page''))) (Num 1))) of
              Inl error \<Rightarrow>
                (json_res (failure (or_str (Some (message error)) ''Internal server error''))
                   (status_res 500 (cors new_res)),
                 \<lparr>fetched = [BASE_URL @ ''/search?keyword='' @ encodeURIComponent q @ ''&page=''
                     @ show_number env (or_number (parseInt (to_string (query req ''page''))) (Num 1))],
                  console = [(''Fetch error:'', error), (''API Error:'', error)]\<rparr>)
            | Inr html \<Rightarrow>
                (json_res (search_page (load env html) q
                             (or_number (parseInt (to_string (query req ''page''))) (Num 1)))
                   (status_res 200 (cors new_res)),
                 \<lparr>fetched = [BASE_URL @ ''/search?keyword='' @ encodeURIComponent q @ ''&page=''
                     @ show_number env (or_number (parseInt (to_string (query req ''page''))) (Num 1))],
                  console = []\<rparr>))"
  using handler_fetch [OF assms(1) dispatch_search [OF assms(2,3,4)]] by simp

lemma handler_details_eq:
  assumes "method req \<noteq> ''OPTIONS''" and "query req ''action'' = Some ''details''"
    and "query req ''id'' = Some i" and "i \<noteq> []"
  shows "handler env req =
           (case fetch_try env (BASE_URL @ ''/'' @ i) of
              Inl error \<Rightarrow>
                (json_res (failure (or_str (Some (message error)) ''Internal server error''))
                   (status_res 500 (cors new_res)),
                 \<lparr>fetched = [BASE_URL @ ''/'' @ i],
                  console = [(''Fetch error:'', error), (''API Error:'', error)]\<rparr>)
            | Inr html \<Rightarrow>
                (json_res (details_page (load env html) i) (status_res 200 (cors new_res)),
                 \<lparr>fetched = [BASE_URL @ ''/'' @ i], console = []\<rparr>))"
  using handler_fetch [OF assms(1) dispatch_details [OF assms(2,3,4)]] by simp

lemma details_page_id:
  "Option.bind (field ''data'' (details_page doc animeId)) (field ''id'') = Some (JStr animeId)"
  by (simp add: details_page_def)

lemma search_page_currentPage:
  "Option.bind (field ''data'' (search_page doc q p)) (field ''currentPage'') = Some (json_number p)"
  by (simp add: search_page_def Let_def)

lemma extractor_result:
  "fst (getHomePage env w) =
     (case fetch_try env (BASE_URL @ ''/home'') of
        Inl e \<Rightarrow> Inl e | Inr html \<Rightarrow> Inr (home_page (load env html) (now env)))"
  "fst (searchAnime env q p w) =
     (case fetch_try env (BASE_URL @ ''/search?keyword='' @ encodeURIComponent q @ ''&page='' @ show_number env p) of
        Inl e \<Rightarrow> Inl e | Inr html \<Rightarrow> Inr (search_page (load env html) q p))"
  "fst (getAnimeDetails env i w) =
     (case fetch_try env (BASE_URL @ ''/'' @ i) of
        Inl e \<Rightarrow> Inl e | Inr html \<Rightarrow> Inr (details_page (load env html) i))"
  by (simp_all add: getHomePage_def searchAnime_def getAnimeDetails_def fetchFromHiAnime_eq
        split: sum.splits)

lemma parseInt_undefined: "parseInt ''undefined'' = NaN"
  by (simp add: parseInt_def trim_start_def white_space_def strip_sign_def digit_val_def Let_def)

lemma to_number_nonneg: "0 \<le> i \<Longrightarrow> to_number i = Infinity \<or> (\<exists>v\<ge>0. to_number i = Num v)"
  by (auto simp: to_number_def split: option.splits)

lemma parseInt_not_minus_led:
  assumes "\<not> minus_led s"
  shows "parseInt s = NaN \<or> parseInt s = Infinity \<or> (\<exists>v\<ge>0. parseInt s = Num v)"
proof -
  from assms have sign:
    "(case trim_start s of c # _ \<Rightarrow> (if c = CHR ''-'' then - 1 else 1) | [] \<Rightarrow> (1::int)) = 1"
    by (simp add: minus_led_def split: list.splits)
  define R :: nat and Z where
    "R = (if (if take 2 (strip_sign (trim_start s)) = ''0x'' then True
              else take 2 (strip_sign (trim_start s)) = ''0X'') then 16 else 10)"
    and "Z = digits_prefix R
               (if (if take 2 (strip_sign (trim_start s)) = ''0x'' then True
                    else take 2 (strip_sign (trim_start s)) = ''0X'')
                then drop 2 (strip_sign (trim_start s)) else strip_sign (trim_start s))"
  have p: "parseInt s = (if Z = [] then NaN else to_number (int (digits_value R Z)))"
    unfolding parseInt_def Let_def sign R_def Z_def by simp
  show ?thesis
    using to_number_nonneg [of "int (digits_value R Z)"] by (auto simp: p)
qed

lemma or_number_cases:
  "or_number NaN d = d" "or_number (Num 0) d = d"
  "v \<noteq> NaN \<Longrightarrow> v \<noteq> Num 0 \<Longrightarrow> or_number v d = v"
  by (simp_all add: or_number_def split: number.splits)

lemma or_number_truthy:
  "d \<noteq> NaN \<Longrightarrow> d \<noteq> Num 0 \<Longrightarrow> or_number v d \<noteq> NaN \<and> or_number v d \<noteq> Num 0"
  by (simp add: or_number_def split: number.splits)

lemma each_push_enumerate:
  "each_push f i els arr = arr @ map (\<lambda>(k, el). f k el) (enumerate i els)"
  by (induction els arbitrary: i arr) simp_all

lemma length_each_push: "length (each_push f i els []) = length els"
  by (simp add: each_push_enumerate)

lemma nth_each_push: "k < length els \<Longrightarrow> each_push f i els [] ! k = f (i + k) (els ! k)"
  by (simp add: each_push_enumerate nth_enumerate_eq)

lemma rank_spotlight_entry: "field ''rank'' (spotlight_entry doc i el) = Some (JNum (int i + 1))"
  by (simp add: spotlight_entry_def)

lemma digit_val_10: "digit_val 10 c = Some d \<Longrightarrow> is_digit c"
  by (auto simp: digit_val_def is_digit_def Let_def split: if_splits)

lemma digit_val_10_None: "\<not> is_digit c \<Longrightarrow> digit_val 10 c = None"
  using digit_val_10 [of c] by (cases "digit_val 10 c") auto

lemma is_digit_0: "is_digit CHR ''0''"
  by (simp add: is_digit_def)

lemma parseInt_not_digit_led:
  assumes "\<not> digit_led t"
  shows "parseInt t = NaN"
proof -
  define S1 where "S1 = strip_sign (trim_start t)"
  from assms have n: "S1 = [] \<or> (\<exists>c cs. S1 = c # cs \<and> \<not> is_digit c)"
    by (cases S1) (simp_all add: digit_led_def S1_def)
  with is_digit_0 have h: "take 2 S1 \<noteq> ''0x''" "take 2 S1 \<noteq> ''0X''"
    by auto
  from n have d: "digits_prefix 10 S1 = []"
    by (auto simp: digit_val_10_None)
  show ?thesis
    unfolding parseInt_def Let_def S1_def [symmetric] using h d by simp
qed

lemma count_not_digit_led: "\<not> digit_led t \<Longrightarrow> or_number (parseInt t) (Num 0) = Num 0"
  by (simp add: parseInt_not_digit_led or_number_def)

lemma count_not_minus_led:
  "\<not> minus_led t \<Longrightarrow>
     or_number (parseInt t) (Num 0) = Infinity \<or> (\<exists>v\<ge>0. or_number (parseInt t) (Num 0) = Num v)"
  using parseInt_not_minus_led [of t] by (auto simp: or_number_def)

lemma trim_empty: "trim [] = []"
  by (simp add: trim_def trim_start_def trim_end_def)

lemma digit_led_empty: "\<not> digit_led []"
  by (simp add: digit_led_def trim_start_def strip_sign_def)

lemma absent_text: "trim (text_of doc []) = []"
  by (simp add: text_of_def trim_empty)

lemma absent_attr: "or_str (attr doc [] name) [] = []" "link_id (attr doc [] name) = []"
  by (simp_all add: attr_def or_str_def link_id_def)

lemma absent_count: "json_number (or_number (parseInt (text_of doc [])) (Num 0)) = JNum 0"
  by (simp add: text_of_def count_not_digit_led digit_led_empty json_number_def)

lemma absent_next: "next_of doc [] = []"
  by (simp add: next_of_def)

declare bits.simps [simp del]

lemma bits_ge: "2 ^ k \<le> m \<Longrightarrow> k < bits m"
proof (induction k arbitrary: m)
  case 0
  then show ?case by (subst bits.simps) simp
next
  case (Suc k)
  then have "2 ^ k \<le> m div 2" by simp
  then have "k < bits (m div 2)" by (rule Suc.IH)
  moreover have "0 < (2::nat) ^ Suc k" by simp
  with Suc.prems have "m \<noteq> 0" by linarith
  ultimately show ?case by (subst bits.simps) simp
qed

lemma bits_lower: "0 < m \<Longrightarrow> 2 ^ (bits m - 1) \<le> m"
proof (induction m rule: bits.induct)
  case (1 n)
  show ?case
  proof (cases "n div 2 = 0")
    case True
    with 1 have "n = 1" by (cases n) auto
    then show ?thesis by (subst bits.simps, subst bits.simps) simp
  next
    case False
    with 1 have ih: "2 ^ (bits (n div 2) - 1) \<le> n div 2" by simp
    from False have b: "0 < bits (n div 2)" by (subst bits.simps) simp
    from 1 have "bits n = Suc (bits (n div 2))" by (subst bits.simps) simp
    then have "(2::nat) ^ (bits n - 1) = 2 * 2 ^ (bits (n div 2) - 1)"
      using b by (cases "bits (n div 2)") simp_all
    also have "\<dots> \<le> 2 * (n div 2)" using ih by simp
    also have "\<dots> \<le> n" by simp
    finally show ?thesis .
  qed
qed

lemma to_double_overflow:
  assumes "2 ^ 1024 \<le> m"
  shows "to_double m = None"
proof -
  from assms have b: "1024 < bits m" by (rule bits_ge)
  define e where "e = bits m - 53"
  have e: "971 < e" and be: "bits m - 1 = e + 52" using b by (simp_all add: e_def)
  from assms have "0 < m" by (simp add: order.strict_trans2 [of 0 "2 ^ 1024" m])
  then have "2 ^ (bits m - 1) \<le> m" by (rule bits_lower)
  then have "2 ^ (e + 52) \<le> m" unfolding be .
  then have "2 ^ 52 * 2 ^ e \<le> m" by (simp add: power_add mult.commute)
  then have q: "2 ^ 52 \<le> m div 2 ^ e" by (simp add: less_eq_div_iff_mult_less_eq)
  have "(2::nat) ^ 1024 = 2 ^ 52 * 2 ^ 972" by simp
  also have "\<dots> \<le> 2 ^ 52 * 2 ^ e"
  proof (rule mult_le_mono2)
    from e have "972 \<le> e" by simp
    then show "(2::nat) ^ 972 \<le> 2 ^ e" by (rule power_increasing) simp
  qed
  also have "\<dots> \<le> (m div 2 ^ e) * 2 ^ e" using q by simp
  finally have v: "2 ^ 1024 \<le> (m div 2 ^ e) * 2 ^ e" .
  then have v': "2 ^ 1024 \<le> (m div 2 ^ e + 1) * 2 ^ e"
    by (simp add: add_mult_distrib)
  from b have "\<not> bits m \<le> 53" by simp
  with v v' show ?thesis
    unfolding to_double_def Let_def e_def [symmetric] by (auto simp: not_less)
qed

lemma to_number_overflow: "2 ^ 1024 \<le> i \<Longrightarrow> to_number i = Infinity"
proof -
  assume a: "2 ^ 1024 \<le> i"
  then have "2 ^ 1024 \<le> nat \<bar>i\<bar>" by (simp add: le_nat_iff)
  then have "to_double (nat \<bar>i\<bar>) = None" by (rule to_double_overflow)
  moreover from a have "\<not> i < 0"
    by (simp add: not_less order.trans [of 0 "2 ^ 1024" i])
  ultimately show ?thesis by (simp add: to_number_def)
qed

lemma digits_prefix_nines: "digits_prefix 10 (replicate n CHR ''9'') = replicate n 9"
  by (induction n) (simp_all add: digit_val_def)

lemma foldl_nines: "foldl (\<lambda>a d. a * 10 + d) a (replicate n (9::nat)) + 1 = (a + 1) * 10 ^ n"
  by (induction n arbitrary: a) (simp_all add: algebra_simps)

lemma digits_value_nines: "int (digits_value 10 (replicate n 9)) = 10 ^ n - 1"
proof -
  from foldl_nines [of 0 n] have "Suc (digits_value 10 (replicate n 9)) = 10 ^ n"
    by (simp add: digits_value_def)
  from arg_cong [OF this, of int] show ?thesis by simp
qed

lemma parseInt_nines: "parseInt (CHR ''9'' # replicate n CHR ''9'') = to_number (10 ^ Suc n - 1)"
proof -
  have z: "digits_prefix 10 (CHR ''9'' # replicate n CHR ''9'') = replicate (Suc n) 9"
    using digits_prefix_nines [of "Suc n"] by simp
  have v: "int (digits_value 10 (replicate (Suc n) 9)) = 10 ^ Suc n - 1"
    by (rule digits_value_nines)
  have n: "replicate (Suc n) (9::nat) \<noteq> []" by simp
  have t: "trim_start (CHR ''9'' # replicate n CHR ''9'') = CHR ''9'' # replicate n CHR ''9''"
    by (simp add: trim_start_def white_space_def)
  have s: "strip_sign (CHR ''9'' # replicate n CHR ''9'') = CHR ''9'' # replicate n CHR ''9''"
    by (simp add: strip_sign_def)
  have h: "take 2 (CHR ''9'' # replicate n CHR ''9'') \<noteq> ''0x''"
    "take 2 (CHR ''9'' # replicate n CHR ''9'') \<noteq> ''0X''"
    by (auto simp: take_Cons')
  show ?thesis
    unfolding parseInt_def Let_def t s
    by (simp only: h if_False z n v list.case char.inject refl simp_thms mult_1)
qed

lemma parseInt_310_nines: "parseInt (replicate 310 CHR ''9'') = Infinity"
proof -
  have r: "replicate 310 CHR ''9'' = CHR ''9'' # replicate 309 CHR ''9''"
    using replicate_Suc [of 309 "CHR ''9''"] by simp
  have "(2::int) ^ 1024 \<le> 10 ^ Suc 309 - 1" by simp
  then show ?thesis unfolding r parseInt_nines by (rule to_number_overflow)
qed

lemma to_number_small: "\<bar>i\<bar> < 2 ^ 53 \<Longrightarrow> to_number i = Num i"
proof -
  assume a: "\<bar>i\<bar> < 2 ^ 53"
  then have m: "nat \<bar>i\<bar> < 2 ^ 53" by (simp add: nat_less_iff)
  have "bits (nat \<bar>i\<bar>) \<le> 53"
  proof (rule ccontr)
    assume "\<not> bits (nat \<bar>i\<bar>) \<le> 53"
    then have b: "53 \<le> bits (nat \<bar>i\<bar>) - 1" by simp
    then have "0 < nat \<bar>i\<bar>" by (subst (asm) bits.simps) (auto split: if_splits)
    then have "2 ^ (bits (nat \<bar>i\<bar>) - 1) \<le> nat \<bar>i\<bar>" by (rule bits_lower)
    moreover from b have "(2::nat) ^ 53 \<le> 2 ^ (bits (nat \<bar>i\<bar>) - 1)"
      by (rule power_increasing) simp
    ultimately show False using m by linarith
  qed
  moreover have "nat \<bar>i\<bar> < 2 ^ 1024"
  proof -
    have "(2::nat) ^ 53 \<le> 2 ^ 1024" by (rule power_increasing) simp_all
    with m show ?thesis by linarith
  qed
  ultimately show ?thesis by (auto simp: to_number_def to_double_def)
qed

section \<open>The claims\<close>

text \<open>
  C10. Every response of the handler, whatever the method, the action and the outcome
  (the empty pre-flight answer, a 200, a 400 of a missing parameter, a 500 of a failed
  upstream call), carries the headers Access-Control-Allow-Origin: *,
  Access-Control-Allow-Methods: GET, OPTIONS and Access-Control-Allow-Headers:
  Content-Type.
\<close>

theorem cors_headers_on_every_response:
  "headers (fst (handler env req)) ''Access-Control-Allow-Origin'' = Some ''*''
   \<and> headers (fst (handler env req)) ''Access-Control-Allow-Methods'' = Some ''GET, OPTIONS''
   \<and> headers (fst (handler env req)) ''Access-Control-Allow-Headers'' = Some ''Content-Type''"
proof -
  have "headers (fst (handler env req)) = headers (cors new_res)"
  proof (cases "method req = ''OPTIONS''")
    case True
    then show ?thesis by (simp add: handler_options)
  next
    case False
    obtain out w where d: "dispatch env req (cors new_res) new_world = (out, w)"
      by (cases "dispatch env req (cors new_res) new_world")
    show ?thesis
    proof (cases out)
      case (Inl error)
      with False d show ?thesis by (simp add: handler_catch)
    next
      case (Inr r')
      with d have "headers r' = headers (cors new_res)" by (simp add: dispatch_headers)
      with False d Inr show ?thesis by (simp add: handler_catch)
    qed
  qed
  then show ?thesis by (simp add: headers_cors)
qed

text \<open>
  C8. A GET request whose action is absent, or is anything but home, search and details,
  is answered 200 with the static list of endpoints and without an upstream call; the
  answer is the same value whatever the other parameters and the environment are.
\<close>

theorem unknown_action_lists_endpoints:
  assumes "method req = ''GET''"
    and "query req ''action'' \<notin> {Some ''home'', Some ''search'', Some ''details''}"
  shows "handler env req = (json_res endpoints (status_res 200 (cors new_res)), new_world)
         \<and> statusCode (fst (handler env req)) = 200
         \<and> body (fst (handler env req)) = Some endpoints
         \<and> fetched (snd (handler env req)) = []"
proof -
  from assms(1) have m: "method req \<noteq> ''OPTIONS''" by simp
  from assms(2) have d: "dispatch env req (cors new_res) new_world
      = (Inr (json_res endpoints (status_res 200 (cors new_res))), new_world)"
    by (simp add: dispatch_default)
  have h: "handler env req = (json_res endpoints (status_res 200 (cors new_res)), new_world)"
    by (simp add: handler_catch [OF m] d)
  show ?thesis by (simp add: h new_world_def)
qed

theorem unknown_action_lists_endpoints_witness:
  "handler site_down (get_request [(''action'', ''bogus''), (''query'', ''naruto''), (''id'', ''x'')])
     = (json_res endpoints (status_res 200 (cors new_res)), new_world)
   \<and> handler site_up (get_request [(''page'', ''7'')])
     = (json_res endpoints (status_res 200 (cors new_res)), new_world)"
  using unknown_action_lists_endpoints
          [of "get_request [(''action'', ''bogus''), (''query'', ''naruto''), (''id'', ''x'')]" site_down]
        unknown_action_lists_endpoints [of "get_request [(''page'', ''7'')]" site_up]
  by (simp add: get_request_def)

text \<open>
  C1, as the code has it. A request that is not a pre-flight (its method is not OPTIONS),
  with action=search and no query parameter, is answered 400 with
  {success:false, error:"Query parameter required"}; with action=details and no id
  parameter, 400 with {success:false, error:"ID parameter required"}; in both cases no
  upstream call is made.
\<close>

theorem missing_parameter_400:
  assumes "method req \<noteq> ''OPTIONS''"
  shows "(query req ''action'' = Some ''search'' \<and> query req ''query'' = None \<longrightarrow>
            statusCode (fst (handler env req)) = 400
            \<and> body (fst (handler env req))
                = Some (JObj [(''success'', JBool False), (''error'', JStr ''Query parameter required'')])
            \<and> fetched (snd (handler env req)) = [])
       \<and> (query req ''action'' = Some ''details'' \<and> query req ''id'' = None \<longrightarrow>
            statusCode (fst (handler env req)) = 400
            \<and> body (fst (handler env req))
                = Some (JObj [(''success'', JBool False), (''error'', JStr ''ID parameter required'')])
            \<and> fetched (snd (handler env req)) = [])"
proof (intro conjI impI)
  assume a: "query req ''action'' = Some ''search'' \<and> query req ''query'' = None"
  then have h: "handler env req =
      (json_res (failure ''Query parameter required'') (status_res 400 (cors new_res)), new_world)"
    using assms by (simp add: handler_search_falsy or_str_def)
  show "statusCode (fst (handler env req)) = 400" by (simp add: h)
  show "body (fst (handler env req))
          = Some (JObj [(''success'', JBool False), (''error'', JStr ''Query parameter required'')])"
    by (simp add: h failure_def)
  show "fetched (snd (handler env req)) = []" by (simp add: h new_world_def)
next
  assume a: "query req ''action'' = Some ''details'' \<and> query req ''id'' = None"
  then have h: "handler env req =
      (json_res (failure ''ID parameter required'') (status_res 400 (cors new_res)), new_world)"
    using assms by (simp add: handler_details_falsy or_str_def)
  show "statusCode (fst (handler env req)) = 400" by (simp add: h)
  show "body (fst (handler env req))
          = Some (JObj [(''success'', JBool False), (''error'', JStr ''ID parameter required'')])"
    by (simp add: h failure_def)
  show "fetched (snd (handler env req)) = []" by (simp add: h new_world_def)
qed

theorem missing_parameter_400_witness:
  "statusCode (fst (handler site_up (get_request [(''action'', ''search''), (''page'', ''2'')]))) = 400
   \<and> body (fst (handler site_up (get_request [(''action'', ''search''), (''page'', ''2'')])))
       = Some (JObj [(''success'', JBool False), (''error'', JStr ''Query parameter required'')])
   \<and> fetched (snd (handler site_up (get_request [(''action'', ''search''), (''page'', ''2'')]))) = []
   \<and> statusCode (fst (handler site_up (get_request [(''action'', ''details'')]))) = 400
   \<and> body (fst (handler site_up (get_request [(''action'', ''details'')])))
       = Some (JObj [(''success'', JBool False), (''error'', JStr ''ID parameter required'')])
   \<and> fetched (snd (handler site_up (get_request [(''action'', ''details'')]))) = []"
  using missing_parameter_400 [of "get_request [(''action'', ''search''), (''page'', ''2'')]" site_up]
        missing_parameter_400 [of "get_request [(''action'', ''details'')]" site_up]
  by (simp add: get_request_def)

text \<open>
  C1 as stated speaks of every request: a pre-flight request with action=search and no
  query parameter is answered 200 with an empty body.
\<close>

theorem preflight_without_query_is_200:
  "query (options_request [(''action'', ''search'')]) ''action'' = Some ''search''
   \<and> query (options_request [(''action'', ''search'')]) ''query'' = None
   \<and> statusCode (fst (handler site_up (options_request [(''action'', ''search'')]))) = 200
   \<and> body (fst (handler site_up (options_request [(''action'', ''search'')]))) = None"
  by (simp add: options_request_def handler_options end_res_def status_res_def cors_def
        setHeader_def new_res_def)

text \<open>
  C9, as the code has it. For a request that is not a pre-flight, an empty query
  parameter under action=search, and an empty id parameter under action=details, are
  answered exactly as an absent one: 400 with the corresponding envelope and no upstream
  call.
\<close>

theorem empty_parameter_400:
  assumes "method req \<noteq> ''OPTIONS''"
  shows "(query req ''action'' = Some ''search'' \<and> query req ''query'' = Some [] \<longrightarrow>
            handler env req = handler env (req\<lparr>query := (query req)(''query'' := None)\<rparr>)
            \<and> statusCode (fst (handler env req)) = 400
            \<and> body (fst (handler env req))
                = Some (JObj [(''success'', JBool False), (''error'', JStr ''Query parameter required'')])
            \<and> fetched (snd (handler env req)) = [])
       \<and> (query req ''action'' = Some ''details'' \<and> query req ''id'' = Some [] \<longrightarrow>
            handler env req = handler env (req\<lparr>query := (query req)(''id'' := None)\<rparr>)
            \<and> statusCode (fst (handler env req)) = 400
            \<and> body (fst (handler env req))
                = Some (JObj [(''success'', JBool False), (''error'', JStr ''ID parameter required'')])
            \<and> fetched (snd (handler env req)) = [])"
proof (intro conjI impI)
  assume a: "query req ''action'' = Some ''search'' \<and> query req ''query'' = Some []"
  then have h: "handler env req =
      (json_res (failure ''Query parameter required'') (status_res 400 (cors new_res)), new_world)"
    using assms by (simp add: handler_search_falsy or_str_def)
  from a assms show "handler env req = handler env (req\<lparr>query := (query req)(''query'' := None)\<rparr>)"
    by (simp add: h handler_search_falsy or_str_def)
  show "statusCode (fst (handler env req)) = 400" by (simp add: h)
  show "body (fst (handler env req))
          = Some (JObj [(''success'', JBool False), (''error'', JStr ''Query parameter required'')])"
    by (simp add: h failure_def)
  show "fetched (snd (handler env req)) = []" by (simp add: h new_world_def)
next
  assume a: "query req ''action'' = Some ''details'' \<and> query req ''id'' = Some []"
  then have h: "handler env req =
      (json_res (failure ''ID parameter required'') (status_res 400 (cors new_res)), new_world)"
    using assms by (simp add: handler_details_falsy or_str_def)
  from a assms show "handler env req = handler env (req\<lparr>query := (query req)(''id'' := None)\<rparr>)"
    by (simp add: h handler_details_falsy or_str_def)
  show "statusCode (fst (handler env req)) = 400" by (simp add: h)
  show "body (fst (handler env req))
          = Some (JObj [(''success'', JBool False), (''error'', JStr ''ID parameter required'')])"
    by (simp add: h failure_def)
  show "fetched (snd (handler env req)) = []" by (simp add: h new_world_def)
qed

theorem empty_parameter_400_witness:
  "statusCode (fst (handler site_up (get_request [(''action'', ''search''), (''query'', [])]))) = 400
   \<and> body (fst (handler site_up (get_request [(''action'', ''search''), (''query'', [])])))
       = Some (JObj [(''success'', JBool False), (''error'', JStr ''Query parameter required'')])
   \<and> fetched (snd (handler site_up (get_request [(''action'', ''search''), (''query'', [])]))) = []
   \<and> statusCode (fst (handler site_up (get_request [(''action'', ''details''), (''id'', [])]))) = 400
   \<and> body (fst (handler site_up (get_request [(''action'', ''details''), (''id'', [])])))
       = Some (JObj [(''success'', JBool False), (''error'', JStr ''ID parameter required'')])
   \<and> fetched (snd (handler site_up (get_request [(''action'', ''details''), (''id'', [])]))) = []"
proof -
  let ?s = "get_request [(''action'', ''search''), (''query'', [])]"
  let ?d = "get_request [(''action'', ''details''), (''id'', [])]"
  have ms: "method ?s \<noteq> ''OPTIONS''" and md: "method ?d \<noteq> ''OPTIONS''"
    by (simp_all add: get_request_def)
  have s: "query ?s ''action'' = Some ''search'' \<and> query ?s ''query'' = Some []"
    by (simp add: get_request_def)
  have d: "query ?d ''action'' = Some ''details'' \<and> query ?d ''id'' = Some []"
    by (simp add: get_request_def)
  from empty_parameter_400 [OF ms, of site_up] empty_parameter_400 [OF md, of site_up] s d
  show ?thesis by blast
qed

text \<open>
  C9 as stated has no condition on the method: a pre-flight request with an empty id or an
  empty query is answered 200 with an empty body.
\<close>

theorem preflight_with_empty_id_is_200:
  "query (options_request [(''action'', ''details''), (''id'', [])]) ''id'' = Some []
   \<and> statusCode (fst (handler site_up (options_request [(''action'', ''details''), (''id'', [])]))) = 200
   \<and> body (fst (handler site_up (options_request [(''action'', ''details''), (''id'', [])]))) = None
   \<and> query (options_request [(''action'', ''search''), (''query'', [])]) ''query'' = Some []
   \<and> statusCode (fst (handler site_up (options_request [(''action'', ''search''), (''query'', [])]))) = 200
   \<and> body (fst (handler site_up (options_request [(''action'', ''search''), (''query'', [])]))) = None"
  by (simp add: options_request_def handler_options end_res_def status_res_def cors_def
        setHeader_def new_res_def)

text \<open>
  C7. For a request that is dispatched to one of the three actions, the handler makes
  exactly one upstream call (there is no retry), and if that call fails (a status outside
  200..299, a rejected fetch, or an unreadable body) the response is 500 with
  success false and a non-empty error string: the status line "HTTP <status>: <text>" or
  the message of the network error ("Internal server error" when that message is empty).
\<close>

theorem upstream_failure_is_500:
  assumes "dispatched req"
  shows "\<exists>url. fetched (snd (handler env req)) = [url]
           \<and> (upstream_fails (fetch env url request_headers) \<longrightarrow>
                statusCode (fst (handler env req)) = 500
                \<and> body (fst (handler env req))
                    = Some (JObj [(''success'', JBool False),
                                  (''error'', JStr (or_str (Some (failure_text (fetch env url request_headers)))
                                                     ''Internal server error''))])
                \<and> or_str (Some (failure_text (fetch env url request_headers)))
                     ''Internal server error'' \<noteq> [])"
proof -
  from assms obtain path page where h:
    "handler env req =
       (case fetch_try env (BASE_URL @ path) of
          Inl error \<Rightarrow>
            (json_res (failure (or_str (Some (message error)) ''Internal server error''))
               (status_res 500 (cors new_res)),
             \<lparr>fetched = [BASE_URL @ path],
              console = [(''Fetch error:'', error), (''API Error:'', error)]\<rparr>)
        | Inr html \<Rightarrow>
            (json_res (page html) (status_res 200 (cors new_res)),
             \<lparr>fetched = [BASE_URL @ path], console = []\<rparr>))"
    by (rule handler_dispatched)
  have f: "fetched (snd (handler env req)) = [BASE_URL @ path]"
    by (simp add: h split: sum.splits)
  have "statusCode (fst (handler env req)) = 500
        \<and> body (fst (handler env req))
            = Some (JObj [(''success'', JBool False),
                          (''error'', JStr (or_str (Some (failure_text (fetch env (BASE_URL @ path) request_headers)))
                                             ''Internal server error''))])
        \<and> or_str (Some (failure_text (fetch env (BASE_URL @ path) request_headers)))
             ''Internal server error'' \<noteq> []"
    if "upstream_fails (fetch env (BASE_URL @ path) request_headers)"
    using fetch_try_fails [OF that] by (simp add: h failure_def or_str_nonempty)
  with f show ?thesis by blast
qed

theorem upstream_failure_is_500_witness:
  "fetched (snd (handler site_404 (get_request [(''action'', ''home'')]))) = [''https://hianime.to/home'']
   \<and> statusCode (fst (handler site_404 (get_request [(''action'', ''home'')]))) = 500
   \<and> body (fst (handler site_404 (get_request [(''action'', ''home'')])))
       = Some (JObj [(''success'', JBool False), (''error'', JStr ''HTTP 404: Not Found'')])"
proof -
  let ?req = "get_request [(''action'', ''home'')]"
  have d: "dispatched ?req" by (simp add: dispatched_def get_request_def)
  have f: "fetched (snd (handler site_404 ?req)) = [''https://hianime.to/home'']"
    by (simp add: handler_def get_request_def dispatch_def getHomePage_def fetchFromHiAnime_def
          fetch_try_def site_404_def site_up_def ok_def BASE_URL_def new_world_def Let_def)
  have u: "upstream_fails (fetch site_404 ''https://hianime.to/home'' request_headers)"
    by (simp add: upstream_fails_def site_404_def site_up_def ok_def)
  have t: "or_str (Some (failure_text (fetch site_404 ''https://hianime.to/home'' request_headers)))
             ''Internal server error'' = ''HTTP 404: Not Found''"
    by (simp add: failure_text_def site_404_def site_up_def ok_def or_str_def digit_char_def)
  from upstream_failure_is_500 [OF d, of site_404] f u t show ?thesis by auto
qed

text \<open>
  C3. For a details request with a non-empty id, whatever markup the upstream call
  returns and whatever the parser makes of it, the id field of the result is the id the
  caller supplied.
\<close>

theorem details_id_is_the_callers:
  assumes "method req \<noteq> ''OPTIONS''" and "query req ''action'' = Some ''details''"
    and "query req ''id'' = Some animeId" and "animeId \<noteq> []"
    and "fetch_try env (BASE_URL @ ''/'' @ animeId) = Inr html"
  shows "fst (getAnimeDetails env animeId w) = Inr (details_page (load env html) animeId)
         \<and> Option.bind (field ''data'' (details_page (load env html) animeId)) (field ''id'')
             = Some (JStr animeId)
         \<and> statusCode (fst (handler env req)) = 200
         \<and> body (fst (handler env req)) = Some (details_page (load env html) animeId)
         \<and> data_field ''id'' (fst (handler env req)) = Some (JStr animeId)"
  using assms(5)
  by (simp add: handler_details_eq [OF assms(1-4)] extractor_result details_page_id data_field_def)

theorem details_id_is_the_callers_witness:
  "data_field ''id'' (fst (handler site_up (get_request [(''action'', ''details''), (''id'', ''naruto-20'')])))
     = Some (JStr ''naruto-20'')
   \<and> data_field ''title'' (fst (handler site_up (get_request [(''action'', ''details''), (''id'', ''naruto-20'')])))
     = Some (JStr ''Naruto'')
   \<and> statusCode (fst (handler site_up (get_request [(''action'', ''details''), (''id'', ''naruto-20'')]))) = 200"
proof -
  let ?req = "get_request [(''action'', ''details''), (''id'', ''naruto-20'')]"
  have a: "method ?req \<noteq> ''OPTIONS''" "query ?req ''action'' = Some ''details''"
    "query ?req ''id'' = Some ''naruto-20''" "''naruto-20'' \<noteq> []"
    by (simp_all add: get_request_def)
  have f: "fetch_try site_up (BASE_URL @ ''/'' @ ''naruto-20'') = Inr ''<html></html>''"
    by (simp add: fetch_try_def site_up_def ok_def)
  have t: "Option.bind (field ''data'' (details_page (load site_up ''<html></html>'') ''naruto-20''))
             (field ''title'') = Some (JStr ''Naruto'')"
    by (simp add: details_page_def site_up_def sample_doc_def text_of_def trim_def trim_start_def trim_end_def white_space_def)
  from details_id_is_the_callers [OF a f] t show ?thesis
    by (simp add: data_field_def)
qed

text \<open>
  C5, as the code has it. For a search request, the page handed to searchAnime, written
  into the upstream URL and reported as currentPage is parseInt(page) || 1: it is 1 when
  page is absent, when parseInt reads no number from it, and when it reads 0; otherwise it
  is the number parseInt reads, the double nearest to the integer written. It is never 0
  and never NaN. Unless the page text begins, after whitespace, with a minus sign, it is a
  positive integer or, when the digits overflow a double, Infinity. A page of magnitude
  below 2^53 is written into the URL in decimal and reported as that integer; Infinity is
  written as "Infinity" and reported as null.
\<close>

theorem current_page_is_parseInt_or_1:
  fixes req :: request and p :: number
  defines "p \<equiv> or_number (parseInt (to_string (query req ''page''))) (Num 1)"
  assumes "method req \<noteq> ''OPTIONS''" and "query req ''action'' = Some ''search''"
    and "query req ''query'' = Some q" and "q \<noteq> []"
  shows "fetched (snd (handler env req))
           = [BASE_URL @ ''/search?keyword='' @ encodeURIComponent q @ ''&page=''
              @ show_number env p]
         \<and> (\<forall>html. fetch_try env (BASE_URL @ ''/search?keyword='' @ encodeURIComponent q
                                  @ ''&page='' @ show_number env p) = Inr html \<longrightarrow>
               statusCode (fst (handler env req)) = 200
               \<and> data_field ''currentPage'' (fst (handler env req)) = Some (json_number p))
         \<and> p \<noteq> NaN \<and> p \<noteq> Num 0
         \<and> (query req ''page'' = None \<longrightarrow> p = Num 1)
         \<and> (\<forall>s. query req ''page'' = Some s \<and> parseInt s = NaN \<longrightarrow> p = Num 1)
         \<and> (\<forall>s. query req ''page'' = Some s \<and> parseInt s = Num 0 \<longrightarrow> p = Num 1)
         \<and> (\<forall>s. query req ''page'' = Some s \<and> parseInt s \<noteq> NaN \<and> parseInt s \<noteq> Num 0 \<longrightarrow>
               p = parseInt s)
         \<and> (\<forall>s. query req ''page'' = Some s \<and> \<not> minus_led s \<longrightarrow>
               p = Infinity \<or> (\<exists>v>0. p = Num v))
         \<and> (\<forall>v. p = Num v \<and> \<bar>v\<bar> < 2 ^ 53 \<longrightarrow>
               show_number env p = show_int v \<and> json_number p = JNum v)
         \<and> (p = Infinity \<longrightarrow> show_number env p = ''Infinity'' \<and> json_number p = JNull)"
proof -
  note h = handler_search_eq [OF assms(2-5), of env, folded p_def]
  have 1: "fetched (snd (handler env req))
           = [BASE_URL @ ''/search?keyword='' @ encodeURIComponent q @ ''&page=''
              @ show_number env p]"
    by (simp add: h split: sum.splits)
  have 2: "statusCode (fst (handler env req)) = 200
           \<and> data_field ''currentPage'' (fst (handler env req)) = Some (json_number p)"
    if "fetch_try env (BASE_URL @ ''/search?keyword='' @ encodeURIComponent q
                        @ ''&page='' @ show_number env p) = Inr html" for html
    using that by (simp add: h data_field_def search_page_currentPage)
  have 3: "p \<noteq> NaN \<and> p \<noteq> Num 0" by (simp add: p_def or_number_truthy)
  have 4: "p = Num 1" if "query req ''page'' = None"
    using that by (simp add: p_def to_string_def parseInt_undefined or_number_cases)
  have 5: "p = Num 1" if "query req ''page'' = Some s \<and> parseInt s = NaN" for s
    using that by (simp add: p_def to_string_def or_number_cases)
  have 6: "p = Num 1" if "query req ''page'' = Some s \<and> parseInt s = Num 0" for s
    using that by (simp add: p_def to_string_def or_number_cases)
  have 7: "p = parseInt s"
    if "query req ''page'' = Some s \<and> parseInt s \<noteq> NaN \<and> parseInt s \<noteq> Num 0" for s
    using that by (simp add: p_def to_string_def or_number_cases)
  have 8: "p = Infinity \<or> (\<exists>v>0. p = Num v)"
    if a: "query req ''page'' = Some s \<and> \<not> minus_led s" for s
  proof -
    from a have "parseInt s = NaN \<or> parseInt s = Infinity \<or> (\<exists>v\<ge>0. parseInt s = Num v)"
      by (simp add: parseInt_not_minus_led)
    then consider "parseInt s = NaN" | "parseInt s = Infinity"
      | v where "0 \<le> v" "parseInt s = Num v" by blast
    then show ?thesis
    proof cases
      case 1
      with a 5 [of s] show ?thesis by simp
    next
      case 2
      with a 7 [of s] show ?thesis by simp
    next
      case (3 v)
      show ?thesis
      proof (cases "v = 0")
        case True
        with 3 a 6 [of s] show ?thesis by simp
      next
        case False
        with 3 a 7 [of s] have "p = Num v" "0 < v" by simp_all
        then show ?thesis by blast
      qed
    qed
  qed
  have 9: "show_number env p = show_int v \<and> json_number p = JNum v"
    if "p = Num v \<and> \<bar>v\<bar> < 2 ^ 53" for v
    using that by (simp add: show_number_def json_number_def)
  have 10: "show_number env p = ''Infinity'' \<and> json_number p = JNull" if "p = Infinity"
    using that by (simp add: show_number_def json_number_def)
  from 1 2 3 4 5 6 7 8 9 10 show ?thesis by blast
qed

theorem current_page_is_parseInt_or_1_witness:
  "fetched (snd (handler site_up
      (get_request [(''action'', ''search''), (''query'', ''one piece''), (''page'', ''2'')])))
     = [''https://hianime.to/search?keyword=one%20piece&page=2'']
   \<and> statusCode (fst (handler site_up
      (get_request [(''action'', ''search''), (''query'', ''one piece''), (''page'', ''2'')]))) = 200
   \<and> data_field ''currentPage'' (fst (handler site_up
      (get_request [(''action'', ''search''), (''query'', ''one piece''), (''page'', ''2'')])))
     = Some (JNum 2)"
proof -
  let ?req = "get_request [(''action'', ''search''), (''query'', ''one piece''), (''page'', ''2'')]"
  have a: "method ?req \<noteq> ''OPTIONS''" "query ?req ''action'' = Some ''search''"
    "query ?req ''query'' = Some ''one piece''" "''one piece'' \<noteq> []"
    by (simp_all add: get_request_def)
  have p: "or_number (parseInt (to_string (query ?req ''page''))) (Num 1) = Num 2"
    by (simp add: get_request_def to_string_def parseInt_def trim_start_def white_space_def
          strip_sign_def digit_val_def Let_def digits_value_def to_number_small or_number_def)
  have n: "show_number site_up (Num 2) = ''2''" "json_number (Num 2) = JNum 2"
    by (simp_all add: show_number_def show_int_def digit_char_def json_number_def)
  have u: "BASE_URL @ ''/search?keyword='' @ encodeURIComponent ''one piece'' @ ''&page='' @ ''2''
           = ''https://hianime.to/search?keyword=one%20piece&page=2''"
    by (simp add: BASE_URL_def encodeURIComponent_def unreserved_def hex_char_def)
  have f: "fetch_try site_up ''https://hianime.to/search?keyword=one%20piece&page=2'' = Inr ''<html></html>''"
    by (simp add: fetch_try_def site_up_def ok_def)
  from current_page_is_parseInt_or_1 [OF a, of site_up] f show ?thesis
    unfolding p n u by blast
qed

text \<open>
  C5 as stated says that currentPage is the page parsed as an integer and always a positive
  integer: page=-3 is reported as -3 and requested from the upstream site as page=-3;
  page=9007199254740993 is reported as 9007199254740992; a page of 310 nines is reported
  as null and requested as page=Infinity.
\<close>

theorem negative_page_is_passed_on:
  "data_field ''currentPage'' (fst (handler site_up
      (get_request [(''action'', ''search''), (''query'', ''one piece''), (''page'', ''-3'')])))
     = Some (JNum (- 3))
   \<and> fetched (snd (handler site_up
      (get_request [(''action'', ''search''), (''query'', ''one piece''), (''page'', ''-3'')])))
     = [''https://hianime.to/search?keyword=one%20piece&page=-3'']
   \<and> data_field ''currentPage'' (fst (handler site_up
      (get_request [(''action'', ''search''), (''query'', ''one piece''),
                    (''page'', ''9007199254740993'')])))
     = Some (JNum 9007199254740992)
   \<and> data_field ''currentPage'' (fst (handler site_up
      (get_request [(''action'', ''search''), (''query'', ''one piece''),
                    (''page'', replicate 310 CHR ''9'')])))
     = Some JNull
   \<and> fetched (snd (handler site_up
      (get_request [(''action'', ''search''), (''query'', ''one piece''),
                    (''page'', replicate 310 CHR ''9'')])))
     = [''https://hianime.to/search?keyword=one%20piece&page=Infinity'']"
proof -
  let ?a = "get_request [(''action'', ''search''), (''query'', ''one piece''), (''page'', ''-3'')]"
  let ?b = "get_request [(''action'', ''search''), (''query'', ''one piece''),
                         (''page'', ''9007199254740993'')]"
  let ?c = "get_request [(''action'', ''search''), (''query'', ''one piece''),
                         (''page'', replicate 310 CHR ''9'')]"
  have a: "method ?a \<noteq> ''OPTIONS''" "query ?a ''action'' = Some ''search''"
    "query ?a ''query'' = Some ''one piece''" "''one piece'' \<noteq> []"
    and b: "method ?b \<noteq> ''OPTIONS''" "query ?b ''action'' = Some ''search''"
    "query ?b ''query'' = Some ''one piece''" "''one piece'' \<noteq> []"
    and c: "method ?c \<noteq> ''OPTIONS''" "query ?c ''action'' = Some ''search''"
    "query ?c ''query'' = Some ''one piece''" "''one piece'' \<noteq> []"
    by (simp_all add: get_request_def)
  have pa: "or_number (parseInt (to_string (query ?a ''page''))) (Num 1) = Num (- 3)"
    by (simp add: get_request_def to_string_def parseInt_def trim_start_def white_space_def
          strip_sign_def digit_val_def Let_def digits_value_def to_number_small or_number_def)
  have pb: "or_number (parseInt (to_string (query ?b ''page''))) (Num 1) = Num 9007199254740992"
    by (simp add: get_request_def to_string_def parseInt_def trim_start_def white_space_def
          strip_sign_def digit_val_def Let_def digits_value_def to_number_def to_double_def
          bits.simps or_number_def)
  have pc: "or_number (parseInt (to_string (query ?c ''page''))) (Num 1) = Infinity"
    by (simp add: get_request_def to_string_def parseInt_310_nines or_number_def)
  have e: "encodeURIComponent ''one piece'' = ''one%20piece''"
    by (simp add: encodeURIComponent_def unreserved_def hex_char_def)
  have n: "show_number site_up (Num (- 3)) = ''-3''" "show_number site_up Infinity = ''Infinity''"
    by (simp_all add: show_number_def show_int_def digit_char_def)
  have f: "fetch_try site_up u = Inr ''<html></html>''" for u
    by (simp add: fetch_try_def site_up_def ok_def)
  note ha = handler_search_eq [OF a, of site_up, unfolded pa e n f sum.case]
  note hb = handler_search_eq [OF b, of site_up, unfolded pb e f sum.case]
  note hc = handler_search_eq [OF c, of site_up, unfolded pc e n f sum.case]
  show ?thesis
    by (simp add: ha hb hc data_field_def search_page_currentPage json_number_def BASE_URL_def)
qed

text \<open>
  C6. Whatever markup the upstream call returns, the spotlight and trending sequences of
  the home page and the results sequence of a search hold exactly one entry per matched
  node, the entry at position i being built from the i-th matched node in document order;
  the spotlight entry at position i has rank i + 1.
\<close>

theorem one_entry_per_node_in_document_order:
  "(\<forall>html. fetch_try env (BASE_URL @ ''/home'') = Inr html \<longrightarrow>
      (\<exists>spotlight trending.
         fst (getHomePage env w) =
           Inr (JObj [(''success'', JBool True),
                      (''data'', JObj [(''spotlight'', JArr spotlight),
                                       (''trending'', JArr trending),
                                       (''timestamp'', JStr (now env))])])
         \<and> length spotlight = length (select (load env html) ''.deslide-item'')
         \<and> (\<forall>i<length spotlight.
               spotlight ! i = spotlight_entry (load env html) i
                                 (select (load env html) ''.deslide-item'' ! i)
               \<and> field ''rank'' (spotlight ! i) = Some (JNum (int i + 1)))
         \<and> length trending
             = length (select (load env html) ''#trending-home .film_list-wrap .flw-item'')
         \<and> (\<forall>i<length trending.
               trending ! i = trending_entry (load env html) i
                                (select (load env html) ''#trending-home .film_list-wrap .flw-item'' ! i))))
   \<and> (\<forall>html. fetch_try env (BASE_URL @ ''/search?keyword='' @ encodeURIComponent q @ ''&page=''
                               @ show_number env p) = Inr html \<longrightarrow>
      (\<exists>results.
         fst (searchAnime env q p w) =
           Inr (JObj [(''success'', JBool True),
                      (''data'', JObj [(''results'', JArr results),
                                       (''currentPage'', json_number p),
                                       (''query'', JStr q)])])
         \<and> length results = length (select (load env html) ''.flw-item'')
         \<and> (\<forall>i<length results.
               results ! i = result_entry (load env html) i
                               (select (load env html) ''.flw-item'' ! i))))"
proof (intro conjI allI impI)
  fix html
  assume f: "fetch_try env (BASE_URL @ ''/home'') = Inr html"
  let ?doc = "load env html"
  let ?spotlight = "each_push (spotlight_entry ?doc) 0 (select ?doc ''.deslide-item'') []"
  let ?trending = "each_push (trending_entry ?doc) 0
                     (select ?doc ''#trending-home .film_list-wrap .flw-item'') []"
  have 1: "fst (getHomePage env w) =
           Inr (JObj [(''success'', JBool True),
                      (''data'', JObj [(''spotlight'', JArr ?spotlight),
                                       (''trending'', JArr ?trending),
                                       (''timestamp'', JStr (now env))])])"
  proof -
    have "fst (getHomePage env w) = Inr (home_page ?doc (now env))"
      by (simp only: extractor_result f sum.case)
    then show ?thesis by (simp add: home_page_def Let_def)
  qed
  have 2: "length ?spotlight = length (select ?doc ''.deslide-item'')"
    by (rule length_each_push)
  have 3: "\<forall>i<length ?spotlight.
             ?spotlight ! i = spotlight_entry ?doc i (select ?doc ''.deslide-item'' ! i)
             \<and> field ''rank'' (?spotlight ! i) = Some (JNum (int i + 1))"
    by (simp add: length_each_push nth_each_push rank_spotlight_entry)
  have 4: "length ?trending
             = length (select ?doc ''#trending-home .film_list-wrap .flw-item'')"
    by (rule length_each_push)
  have 5: "\<forall>i<length ?trending.
             ?trending ! i = trending_entry ?doc i
                               (select ?doc ''#trending-home .film_list-wrap .flw-item'' ! i)"
    by (simp add: length_each_push nth_each_push)
  from 1 2 3 4 5
  show "\<exists>spotlight trending.
         fst (getHomePage env w) =
           Inr (JObj [(''success'', JBool True),
                      (''data'', JObj [(''spotlight'', JArr spotlight),
                                       (''trending'', JArr trending),
                                       (''timestamp'', JStr (now env))])])
         \<and> length spotlight = length (select ?doc ''.deslide-item'')
         \<and> (\<forall>i<length spotlight.
               spotlight ! i = spotlight_entry ?doc i (select ?doc ''.deslide-item'' ! i)
               \<and> field ''rank'' (spotlight ! i) = Some (JNum (int i + 1)))
         \<and> length trending
             = length (select ?doc ''#trending-home .film_list-wrap .flw-item'')
         \<and> (\<forall>i<length trending.
               trending ! i = trending_entry ?doc i
                                (select ?doc ''#trending-home .film_list-wrap .flw-item'' ! i))"
    by blast
next
  fix html
  assume f: "fetch_try env (BASE_URL @ ''/search?keyword='' @ encodeURIComponent q @ ''&page=''
                             @ show_number env p) = Inr html"
  let ?doc = "load env html"
  let ?results = "each_push (result_entry ?doc) 0 (select ?doc ''.flw-item'') []"
  have 1: "fst (searchAnime env q p w) =
           Inr (JObj [(''success'', JBool True),
                      (''data'', JObj [(''results'', JArr ?results),
                                       (''currentPage'', json_number p),
                                       (''query'', JStr q)])])"
  proof -
    have "fst (searchAnime env q p w) = Inr (search_page ?doc q p)"
      by (simp only: extractor_result f sum.case)
    then show ?thesis by (simp add: search_page_def Let_def)
  qed
  have 2: "length ?results = length (select ?doc ''.flw-item'')"
    by (rule length_each_push)
  have 3: "\<forall>i<length ?results.
             ?results ! i = result_entry ?doc i (select ?doc ''.flw-item'' ! i)"
    by (simp add: length_each_push nth_each_push)
  from 1 2 3
  show "\<exists>results.
         fst (searchAnime env q p w) =
           Inr (JObj [(''success'', JBool True),
                      (''data'', JObj [(''results'', JArr results),
                                       (''currentPage'', json_number p),
                                       (''query'', JStr q)])])
         \<and> length results = length (select ?doc ''.flw-item'')
         \<and> (\<forall>i<length results.
               results ! i = result_entry ?doc i (select ?doc ''.flw-item'' ! i))"
    by blast
qed

theorem one_entry_per_node_in_document_order_witness:
  "\<exists>spotlight trending.
     fst (getHomePage site_up new_world) =
       Inr (JObj [(''success'', JBool True),
                  (''data'', JObj [(''spotlight'', JArr spotlight),
                                   (''trending'', JArr trending),
                                   (''timestamp'', JStr ''2024-01-01T00:00:00.000Z'')])])
     \<and> length spotlight = 2 \<and> length trending = 1
     \<and> field ''rank'' (spotlight ! 0) = Some (JNum 1)
     \<and> field ''rank'' (spotlight ! 1) = Some (JNum 2)
     \<and> field ''id'' (spotlight ! 0) = Some (JStr ''one-piece-100'')
     \<and> field ''id'' (trending ! 0) = Some (JStr ''naruto-20'')"
proof -
  have f: "fetch_try site_up (BASE_URL @ ''/home'') = Inr ''<html></html>''"
    by (simp add: fetch_try_def site_up_def ok_def)
  have d: "load site_up ''<html></html>'' = sample_doc" and n: "now site_up = ''2024-01-01T00:00:00.000Z''"
    by (simp_all add: site_up_def)
  have s: "select sample_doc ''.deslide-item'' = [1, 2]"
    "select sample_doc ''#trending-home .film_list-wrap .flw-item'' = [3]"
    by (simp_all add: sample_doc_def)
  have i1: "field ''id'' (spotlight_entry sample_doc 0 1) = Some (JStr ''one-piece-100'')"
    by (simp add: spotlight_entry_def sample_doc_def attr_def link_id_def pop_def or_str_def)
  have i2: "field ''id'' (trending_entry sample_doc 0 3) = Some (JStr ''naruto-20'')"
    by (simp add: trending_entry_def sample_doc_def attr_def link_id_def pop_def or_str_def)
  from one_entry_per_node_in_document_order [of site_up new_world, THEN conjunct1, rule_format, OF f]
  obtain spotlight trending where
    r: "fst (getHomePage site_up new_world) =
           Inr (JObj [(''success'', JBool True),
                      (''data'', JObj [(''spotlight'', JArr spotlight),
                                       (''trending'', JArr trending),
                                       (''timestamp'', JStr (now site_up))])])"
    and ls: "length spotlight = length (select (load site_up ''<html></html>'') ''.deslide-item'')"
    and es: "\<forall>i<length spotlight.
               spotlight ! i = spotlight_entry (load site_up ''<html></html>'') i
                                 (select (load site_up ''<html></html>'') ''.deslide-item'' ! i)
               \<and> field ''rank'' (spotlight ! i) = Some (JNum (int i + 1))"
    and lt: "length trending
             = length (select (load site_up ''<html></html>'') ''#trending-home .film_list-wrap .flw-item'')"
    and et: "\<forall>i<length trending.
               trending ! i = trending_entry (load site_up ''<html></html>'') i
                 (select (load site_up ''<html></html>'') ''#trending-home .film_list-wrap .flw-item'' ! i)"
    by blast
  have ls2: "length spotlight = 2" and lt1: "length trending = 1"
    using ls lt by (simp_all add: d s)
  have s0: "spotlight ! 0 = spotlight_entry sample_doc 0 1"
    and r0: "field ''rank'' (spotlight ! 0) = Some (JNum 1)"
    using es [rule_format, of 0] ls2 by (simp_all add: d s rank_spotlight_entry)
  have r1: "field ''rank'' (spotlight ! 1) = Some (JNum 2)"
    using es [rule_format, of 1] ls2 by (simp add: d s rank_spotlight_entry)
  have t0: "trending ! 0 = trending_entry sample_doc 0 3"
    using et [rule_format, of 0] lt1 by (simp add: d s)
  from r ls2 lt1 r0 r1 i1 i2 show ?thesis
    unfolding n s0 [symmetric] t0 [symmetric] by blast
qed

text \<open>
  C4, as the code has it. In every search result entry and in the details result the
  sub/dub counts are under a field named episodes (there is no field episodeCounts), as
  its fields sub and dub, each the JSON value of parseInt(badge text) || 0: an integer, or
  null when the digits overflow a double. A count is 0 whenever its badge is missing or the
  badge text does not begin, after leading whitespace and an optional sign, with a decimal
  digit; and it is a non-negative integer or null unless the text begins, after leading
  whitespace, with a minus sign.
\<close>

theorem counts_are_under_episodes:
  "field ''episodes'' (result_entry doc i el)
     = Some (JObj
         [(''sub'', json_number (or_number (parseInt (text_of doc (find_in doc el ''.tick-sub''))) (Num 0))),
          (''dub'', json_number (or_number (parseInt (text_of doc (find_in doc el ''.tick-dub''))) (Num 0)))])
   \<and> field ''episodeCounts'' (result_entry doc i el) = None
   \<and> Option.bind (field ''data'' (details_page doc animeId)) (field ''episodes'')
     = Some (JObj
         [(''sub'', json_number (or_number (parseInt (text_of doc (select doc ''.tick-sub''))) (Num 0))),
          (''dub'', json_number (or_number (parseInt (text_of doc (select doc ''.tick-dub''))) (Num 0)))])
   \<and> Option.bind (field ''data'' (details_page doc animeId)) (field ''episodeCounts'') = None
   \<and> json_number (or_number (parseInt (text_of doc [])) (Num 0)) = JNum 0
   \<and> (\<not> digit_led t \<longrightarrow> json_number (or_number (parseInt t) (Num 0)) = JNum 0)
   \<and> (\<not> minus_led t \<longrightarrow>
        json_number (or_number (parseInt t) (Num 0)) = JNull
        \<or> (\<exists>v\<ge>0. json_number (or_number (parseInt t) (Num 0)) = JNum v))
   \<and> ((\<exists>v. json_number (or_number (parseInt t) (Num 0)) = JNum v)
        \<or> (json_number (or_number (parseInt t) (Num 0)) = JNull
            \<and> (parseInt t = Infinity \<or> parseInt t = NegInfinity)))"
proof (intro conjI impI)
  show "field ''episodes'' (result_entry doc i el)
     = Some (JObj
         [(''sub'', json_number (or_number (parseInt (text_of doc (find_in doc el ''.tick-sub''))) (Num 0))),
          (''dub'', json_number (or_number (parseInt (text_of doc (find_in doc el ''.tick-dub''))) (Num 0)))])"
    by (simp add: result_entry_def)
  show "field ''episodeCounts'' (result_entry doc i el) = None"
    by (simp add: result_entry_def)
  show "Option.bind (field ''data'' (details_page doc animeId)) (field ''episodes'')
     = Some (JObj
         [(''sub'', json_number (or_number (parseInt (text_of doc (select doc ''.tick-sub''))) (Num 0))),
          (''dub'', json_number (or_number (parseInt (text_of doc (select doc ''.tick-dub''))) (Num 0)))])"
    by (simp add: details_page_def)
  show "Option.bind (field ''data'' (details_page doc animeId)) (field ''episodeCounts'') = None"
    by (simp add: details_page_def)
  show "json_number (or_number (parseInt (text_of doc [])) (Num 0)) = JNum 0"
    by (rule absent_count)
  show "json_number (or_number (parseInt t) (Num 0)) = JNum 0" if "\<not> digit_led t"
    using that by (simp add: count_not_digit_led json_number_def)
  show "json_number (or_number (parseInt t) (Num 0)) = JNull
        \<or> (\<exists>v\<ge>0. json_number (or_number (parseInt t) (Num 0)) = JNum v)" if "\<not> minus_led t"
    using count_not_minus_led [OF that] by (auto simp: json_number_def)
  show "(\<exists>v. json_number (or_number (parseInt t) (Num 0)) = JNum v)
        \<or> (json_number (or_number (parseInt t) (Num 0)) = JNull
            \<and> (parseInt t = Infinity \<or> parseInt t = NegInfinity))"
    by (cases "parseInt t") (simp_all add: or_number_def json_number_def)
qed

theorem counts_are_under_episodes_witness:
  "field ''episodes'' (result_entry sample_doc 1 4)
     = Some (JObj [(''sub'', JNum 0), (''dub'', JNum 0)])
   \<and> json_number (or_number (parseInt ''EP 12'') (Num 0)) = JNum 0
   \<and> (json_number (or_number (parseInt ''12 eps'') (Num 0)) = JNull
        \<or> (\<exists>v\<ge>0. json_number (or_number (parseInt ''12 eps'') (Num 0)) = JNum v))"
proof -
  have t: "find_in sample_doc 4 ''.tick-sub'' = []" "find_in sample_doc 4 ''.tick-dub'' = []"
    by (simp_all add: sample_doc_def)
  have d: "\<not> digit_led ''EP 12''"
    by (simp add: digit_led_def trim_start_def white_space_def strip_sign_def is_digit_def)
  have m: "\<not> minus_led ''12 eps''"
    by (simp add: minus_led_def trim_start_def white_space_def)
  note a = counts_are_under_episodes [of sample_doc 1 4 "''naruto-20''" "''EP 12''", unfolded t]
  note b = counts_are_under_episodes [of sample_doc 1 4 "''naruto-20''" "''12 eps''"]
  from a have z: "json_number (or_number (parseInt (text_of sample_doc [])) (Num 0)) = JNum 0"
    by blast
  from a have "field ''episodes'' (result_entry sample_doc 1 4)
     = Some (JObj [(''sub'', JNum 0), (''dub'', JNum 0)])"
    unfolding z by blast
  moreover from a d have "json_number (or_number (parseInt ''EP 12'') (Num 0)) = JNum 0"
    by blast
  moreover from b m have "json_number (or_number (parseInt ''12 eps'') (Num 0)) = JNull
        \<or> (\<exists>v\<ge>0. json_number (or_number (parseInt ''12 eps'') (Num 0)) = JNum v)"
    by blast
  ultimately show ?thesis by blast
qed

text \<open>
  C4 as stated names the field episodeCounts and promises non-negative integers that are 0
  on non-numeric text: on the sample page the search entries and the details result have
  no field episodeCounts, the badge text "12 eps" counts 12, the badge text "-5" counts -5,
  and a badge of 310 nines counts null.
\<close>

theorem counts_field_name_and_sign:
  "field ''episodeCounts'' (result_entry sample_doc 0 3) = None
   \<and> text_of sample_doc (find_in sample_doc 3 ''.tick-sub'') = ''12 eps''
   \<and> text_of sample_doc (find_in sample_doc 3 ''.tick-dub'') = ''-5''
   \<and> field ''episodes'' (result_entry sample_doc 0 3)
       = Some (JObj [(''sub'', JNum 12), (''dub'', JNum (- 5))])
   \<and> text_of sample_doc (find_in sample_doc 5 ''.tick-sub'') = replicate 310 CHR ''9''
   \<and> field ''episodes'' (result_entry sample_doc 2 5)
       = Some (JObj [(''sub'', JNull), (''dub'', JNum 0)])
   \<and> Option.bind (field ''data'' (details_page sample_doc ''naruto-20'')) (field ''episodeCounts'') = None
   \<and> Option.bind (field ''data'' (details_page sample_doc ''naruto-20'')) (field ''episodes'')
       = Some (JObj [(''sub'', JNum 12), (''dub'', JNum (- 5))])"
proof -
  have t: "text_of sample_doc (find_in sample_doc 3 ''.tick-sub'') = ''12 eps''"
    "text_of sample_doc (find_in sample_doc 3 ''.tick-dub'') = ''-5''"
    "text_of sample_doc (find_in sample_doc 5 ''.tick-sub'') = replicate 310 CHR ''9''"
    "text_of sample_doc (find_in sample_doc 5 ''.tick-dub'') = ''EP 12''"
    "text_of sample_doc (select sample_doc ''.tick-sub'') = ''12 eps''"
    "text_of sample_doc (select sample_doc ''.tick-dub'') = ''-5''"
    by (simp_all add: sample_doc_def text_of_def)
  have p: "json_number (or_number (parseInt ''12 eps'') (Num 0)) = JNum 12"
    "json_number (or_number (parseInt ''-5'') (Num 0)) = JNum (- 5)"
    "json_number (or_number (parseInt ''EP 12'') (Num 0)) = JNum 0"
    by (simp_all add: parseInt_def trim_start_def white_space_def strip_sign_def digit_val_def
          Let_def digits_value_def to_number_small or_number_def json_number_def)
  have q: "json_number (or_number (parseInt (replicate 310 CHR ''9'')) (Num 0)) = JNull"
    by (simp add: parseInt_310_nines or_number_def json_number_def)
  have 1: "field ''episodes'' (result_entry sample_doc 0 3)
       = Some (JObj [(''sub'', JNum 12), (''dub'', JNum (- 5))])"
    by (simp add: result_entry_def t p)
  have 2: "field ''episodes'' (result_entry sample_doc 2 5)
       = Some (JObj [(''sub'', JNull), (''dub'', JNum 0)])"
    by (simp add: result_entry_def t p q)
  have 3: "Option.bind (field ''data'' (details_page sample_doc ''naruto-20'')) (field ''episodes'')
       = Some (JObj [(''sub'', JNum 12), (''dub'', JNum (- 5))])"
    by (simp add: details_page_def t p)
  have 4: "field ''episodeCounts'' (result_entry sample_doc 0 3) = None"
    "Option.bind (field ''data'' (details_page sample_doc ''naruto-20'')) (field ''episodeCounts'') = None"
    by (simp_all add: result_entry_def details_page_def)
  from t 1 2 3 4 show ?thesis by blast
qed

text \<open>
  C2. Each of the three extractors fails only when fetchFromHiAnime fails, and then with
  that very error; whenever the upstream call returns markup, whatever the markup and its
  parse, the extractor returns its result. In the result a string field whose node is
  absent is the empty string, a count whose badge is absent is 0, and the genres of a
  page with no genre link are the empty list.
\<close>

theorem extraction_never_raises:
  \<open>(case fetch_try env (BASE_URL @ ''/home'') of
      Inl e \<Rightarrow> fst (getHomePage env w) = Inl e
    | Inr html \<Rightarrow> fst (getHomePage env w) = Inr (home_page (load env html) (now env)))
   \<and> (case fetch_try env (BASE_URL @ ''/search?keyword='' @ encodeURIComponent q @ ''&page=''
                           @ show_number env p) of
        Inl e \<Rightarrow> fst (searchAnime env q p w) = Inl e
      | Inr html \<Rightarrow> fst (searchAnime env q p w) = Inr (search_page (load env html) q p))
   \<and> (case fetch_try env (BASE_URL @ ''/'' @ animeId) of
        Inl e \<Rightarrow> fst (getAnimeDetails env animeId w) = Inl e
      | Inr html \<Rightarrow> fst (getAnimeDetails env animeId w) = Inr (details_page (load env html) animeId))
   \<and> (find_in doc el ''a'' = [] \<longrightarrow> field ''id'' (spotlight_entry doc i el) = Some (JStr []))
   \<and> (find_in doc el ''.deslide-item-content h2'' = [] \<longrightarrow>
        field ''title'' (spotlight_entry doc i el) = Some (JStr []))
   \<and> (find_in doc el ''.deslide-item-content .sc-desc'' = [] \<longrightarrow>
        field ''description'' (spotlight_entry doc i el) = Some (JStr []))
   \<and> (find_in doc el ''.deslide-cover img'' = [] \<longrightarrow>
        field ''poster'' (spotlight_entry doc i el) = Some (JStr []))
   \<and> (find_in doc el ''a.film-poster'' = [] \<longrightarrow>
        field ''id'' (trending_entry doc i el) = Some (JStr [])
        \<and> field ''id'' (result_entry doc i el) = Some (JStr []))
   \<and> (find_in doc el ''.film-name'' = [] \<longrightarrow>
        field ''title'' (trending_entry doc i el) = Some (JStr [])
        \<and> field ''title'' (result_entry doc i el) = Some (JStr []))
   \<and> (find_in doc el ''.film-poster-img'' = [] \<longrightarrow>
        field ''poster'' (trending_entry doc i el) = Some (JStr [])
        \<and> field ''poster'' (result_entry doc i el) = Some (JStr []))
   \<and> (find_in doc el ''.fdi-item:first'' = [] \<longrightarrow>
        field ''type'' (trending_entry doc i el) = Some (JStr [])
        \<and> field ''type'' (result_entry doc i el) = Some (JStr []))
   \<and> (find_in doc el ''.fdi-duration'' = [] \<longrightarrow>
        field ''duration'' (trending_entry doc i el) = Some (JStr [])
        \<and> field ''duration'' (result_entry doc i el) = Some (JStr []))
   \<and> (find_in doc el ''.tick-sub'' = [] \<longrightarrow>
        Option.bind (field ''episodes'' (result_entry doc i el)) (field ''sub'') = Some (JNum 0))
   \<and> (find_in doc el ''.tick-dub'' = [] \<longrightarrow>
        Option.bind (field ''episodes'' (result_entry doc i el)) (field ''dub'') = Some (JNum 0))
   \<and> (select doc ''.film-name'' = [] \<longrightarrow>
        Option.bind (field ''data'' (details_page doc animeId)) (field ''title'') = Some (JStr []))
   \<and> (select doc ''.film-poster-img'' = [] \<longrightarrow>
        Option.bind (field ''data'' (details_page doc animeId)) (field ''poster'') = Some (JStr []))
   \<and> (select doc ''.film-description'' = [] \<longrightarrow>
        Option.bind (field ''data'' (details_page doc animeId)) (field ''description'')
          = Some (JStr []))
   \<and> (select doc ''.item-title:contains("Type:")'' = [] \<longrightarrow>
        Option.bind (field ''data'' (details_page doc animeId)) (field ''type'') = Some (JStr []))
   \<and> (select doc ''.item-title:contains("Status:")'' = [] \<longrightarrow>
        Option.bind (field ''data'' (details_page doc animeId)) (field ''status'') = Some (JStr []))
   \<and> (select doc ''.item-list a'' = [] \<longrightarrow>
        Option.bind (field ''data'' (details_page doc animeId)) (field ''genres'') = Some (JArr []))
   \<and> (select doc ''.tick-sub'' = [] \<longrightarrow>
        Option.bind (Option.bind (field ''data'' (details_page doc animeId)) (field ''episodes''))
          (field ''sub'') = Some (JNum 0))
   \<and> (select doc ''.tick-dub'' = [] \<longrightarrow>
        Option.bind (Option.bind (field ''data'' (details_page doc animeId)) (field ''episodes''))
          (field ''dub'') = Some (JNum 0))\<close>
proof (intro conjI impI)
  show "case fetch_try env (BASE_URL @ ''/home'') of
      Inl e \<Rightarrow> fst (getHomePage env w) = Inl e
    | Inr html \<Rightarrow> fst (getHomePage env w) = Inr (home_page (load env html) (now env))"
    by (simp only: extractor_result split: sum.split) simp
  show "case fetch_try env (BASE_URL @ ''/search?keyword='' @ encodeURIComponent q @ ''&page=''
                           @ show_number env p) of
        Inl e \<Rightarrow> fst (searchAnime env q p w) = Inl e
      | Inr html \<Rightarrow> fst (searchAnime env q p w) = Inr (search_page (load env html) q p)"
    by (simp only: extractor_result split: sum.split) simp
  show "case fetch_try env (BASE_URL @ ''/'' @ animeId) of
        Inl e \<Rightarrow> fst (getAnimeDetails env animeId w) = Inl e
      | Inr html \<Rightarrow> fst (getAnimeDetails env animeId w) = Inr (details_page (load env html) animeId)"
    by (simp only: extractor_result split: sum.split) simp
qed (simp_all add: spotlight_entry_def trending_entry_def result_entry_def details_page_def
       absent_text absent_attr absent_count absent_next)

theorem extraction_never_raises_witness:
  "fst (getHomePage site_404 new_world) = Inl (Error ''HTTP 404: Not Found'')
   \<and> fst (getAnimeDetails site_blank ''naruto-20'' new_world)
       = Inr (details_page empty_doc ''naruto-20'')
   \<and> field ''title'' (result_entry empty_doc 0 7) = Some (JStr [])
   \<and> Option.bind (field ''episodes'' (result_entry empty_doc 0 7)) (field ''sub'') = Some (JNum 0)"
proof -
  have f1: "fetch_try site_404 (BASE_URL @ ''/home'') = Inl (Error ''HTTP 404: Not Found'')"
    by (simp add: fetch_try_def site_404_def site_up_def ok_def digit_char_def)
  have f2: "fetch_try site_blank (BASE_URL @ ''/'' @ ''naruto-20'') = Inr ''<html></html>''"
    by (simp add: fetch_try_def site_blank_def site_up_def ok_def)
  have d: "load site_blank ''<html></html>'' = empty_doc"
    by (simp add: site_blank_def)
  have e: "find_in empty_doc 7 ''.film-name'' = []" "find_in empty_doc 7 ''.tick-sub'' = []"
    by (simp_all add: empty_doc_def)
  note a = extraction_never_raises [where env = site_404 and w = new_world and q = "''naruto''"
             and p = "Num 1" and animeId = "''naruto-20''" and doc = empty_doc and i = 0 and el = 7]
  note b = extraction_never_raises [where env = site_blank and w = new_world and q = "''naruto''"
             and p = "Num 1" and animeId = "''naruto-20''" and doc = empty_doc and i = 0 and el = 7]
  note 1 = a [THEN conjunct1, unfolded f1 sum.case]
  note 2 = b [THEN conjunct2, THEN conjunct2, THEN conjunct1, unfolded f2 sum.case d]
  from b e have 3: "field ''title'' (result_entry empty_doc 0 7) = Some (JStr [])"
    and 4: "Option.bind (field ''episodes'' (result_entry empty_doc 0 7)) (field ''sub'') = Some (JNum 0)"
    by blast+
  from 1 2 3 4 show ?thesis by blast
qed

end
